theory Spec2Isabelle
  imports Complex_Main "HOL-Library.Multiset" "HOL-Library.Extended_Nat" "HOL-Library.Sublist"
begin

section \<open>Conventions of the embedding\<close>

text \<open>
  The development embeds the orchestration core of the MAGI bot: the rate-limit tracker
  (\<^verbatim>\<open>src/groq/ratelimits.ts\<close>), the Groq client (\<^verbatim>\<open>src/groq/client.ts\<close>), the persona
  table (\<^verbatim>\<open>src/groq/personas.ts\<close>), the language detector (\<^verbatim>\<open>src/i18n/detector.ts\<close>), the
  deliberation engine (\<^verbatim>\<open>src/magi/engine.ts\<close>) and the consensus function
  (\<^verbatim>\<open>src/magi/types.ts\<close>).

  \<^item> A JavaScript string is the list of its UTF-16 code units (\<open>jsstring\<close>), so that
    \<open>length\<close> is \<^verbatim>\<open>.length\<close> and \<open>take\<close>/\<open>drop\<close> are \<^verbatim>\<open>.slice\<close>. Model identifiers are
    plain ASCII and are kept as HOL strings.
  \<^item> A JavaScript number is a real number: arithmetic is exact, and neither NaN nor
    rounding is modelled. The one infinite constant of the code, the daily token limit
    of the two compound models, is \<open>\<infinity>\<close> of the extended naturals.
  \<^item> \<^verbatim>\<open>Date.now()\<close> is a parameter \<open>now\<close> of the tracker functions. The engine reads it
    from the field \<open>clock\<close> of the world; only the provider's calls take time.
  \<^item> The provider is a script: the list of what it does on the successive calls. The
    text of a request does not select the answer, so prompts are not built, and
    arguments and fields that only feed a prompt (the system prompts, the question in
    the helpers) are dropped.
  \<^item> The module-level maps of the tracker are the fields of a record that every
    function takes and returns.
  \<^item> Logging and the fire-and-forget saves to the key-value store have no effect on
    any value computed here and are left out.
\<close>

type_synonym jsstring = "nat list"

definition js :: "string \<Rightarrow> jsstring" where
  "js s = map of_char s"

section \<open>Verdicts and the consensus function (magi/types.ts)\<close>

datatype Verdict = APPROVE | DENY | CONDITIONAL | REFUSE

datatype PersonaName = MELCHIOR_1 | BALTHASAR_2 | CASPER_3

datatype SupportedLanguage = En | Ja | Ko

datatype DeliberationResult = approved | denied | conditional | noConsensus

record PersonaConfig =
  name :: PersonaName
  model :: string
  fallbackModels :: "string list"
  emergencyModel :: string
  temperature :: real

text \<open>What a JavaScript error stands for when it is caught, and the texts the field
  \<^verbatim>\<open>error\<close> of a response can hold: the message of a caught error or one of three
  literals. Every message the code can produce is a non-empty string, so the test
  \<^verbatim>\<open>r.error ? ... : ...\<close> is the test for the presence of the field.\<close>

datatype JsError =
    FetchFailure
  | GroqRateLimitError nat
  | GroqApiError nat
  | BadResponseBody
  | EmptyResponseError
  | DataModelsExhausted

datatype ErrorText =
    MessageOf JsError
  | CondenseFailedText
  | AllModelsExhaustedText
  | UnknownErrorText

record PersonaResponse =
  persona :: PersonaName
  content :: jsstring
  verdict :: Verdict
  model :: string
  latencyMs :: real
  error :: "ErrorText option"

record MagiDeliberation =
  question :: jsstring
  approvalCondition :: jsstring
  searchContext :: "jsstring option"
  searchFailed :: bool
  imageContext :: "jsstring option"
  fileContext :: "jsstring option"
  userContext :: "jsstring option"
  language :: SupportedLanguage
  melchior :: PersonaResponse
  balthasar :: PersonaResponse
  casper :: PersonaResponse

definition computeDeliberationResult :: "MagiDeliberation \<Rightarrow> DeliberationResult" where
  "computeDeliberationResult d =
     (let verdicts = [verdict (melchior d), verdict (balthasar d), verdict (casper d)];
          valid = filter (\<lambda>v. v \<noteq> REFUSE) verdicts;
          approves = length (filter (\<lambda>v. v = APPROVE) valid);
          denies = length (filter (\<lambda>v. v = DENY) valid);
          conditionals = length (filter (\<lambda>v. v = CONDITIONAL) valid)
      in if approves \<ge> 2 then approved
         else if denies \<ge> 2 then denied
         else if approves + conditionals \<ge> 2 then conditional
         else noConsensus)"

text \<open>The three verdicts of a deliberation, in persona order, and a deliberation with
  its three verdicts replaced: the vocabulary in which the claims speak of triples.\<close>

definition verdictsOf :: "MagiDeliberation \<Rightarrow> Verdict list" where
  "verdictsOf d = [verdict (melchior d), verdict (balthasar d), verdict (casper d)]"

definition withVerdicts :: "MagiDeliberation \<Rightarrow> Verdict \<Rightarrow> Verdict \<Rightarrow> Verdict \<Rightarrow> MagiDeliberation" where
  "withVerdicts d v1 v2 v3 =
     d\<lparr>melchior := (melchior d)\<lparr>verdict := v1\<rparr>,
       balthasar := (balthasar d)\<lparr>verdict := v2\<rparr>,
       casper := (casper d)\<lparr>verdict := v3\<rparr>\<rparr>"

text \<open>The consensus rule in the specification's words: discard the REFUSE votes, count
  the APPROVE, DENY and CONDITIONAL votes among the rest, and compare.\<close>

definition consensus :: "Verdict list \<Rightarrow> DeliberationResult" where
  "consensus vs =
     (let remaining = removeAll REFUSE vs;
          a = count_list remaining APPROVE;
          d = count_list remaining DENY;
          c = count_list remaining CONDITIONAL
      in if 2 \<le> a then approved
         else if 2 \<le> d then denied
         else if 2 \<le> a + c then conditional
         else noConsensus)"

text \<open>A deliberation record to evaluate the consensus function on.\<close>

definition blankResponse :: "PersonaName \<Rightarrow> PersonaResponse" where
  "blankResponse p =
     \<lparr>persona = p, content = [], verdict = REFUSE, model = [], latencyMs = 0, error = None\<rparr>"

definition blankDeliberation :: MagiDeliberation where
  "blankDeliberation =
     \<lparr>question = [], approvalCondition = [], searchContext = None, searchFailed = False,
      imageContext = None, fileContext = None, userContext = None, language = En,
      melchior = blankResponse MELCHIOR_1, balthasar = blankResponse BALTHASAR_2,
      casper = blankResponse CASPER_3\<rparr>"

section \<open>The rate-limit tracker (groq/ratelimits.ts)\<close>

record RateLimitInfo =
  rpdLimit :: real
  rpdRemaining :: real
  rpdResetAt :: real
  tpmLimit :: real
  tpmRemaining :: real
  tpmResetAt :: real
  updatedAt :: real

record ModelLimit =
  rpm :: nat
  tpd :: enat

record LoadInfo =
  tpm :: real
  rpm :: real
  rpd :: real
  tpd :: real

record TpdEntry =
  tokens :: real
  dayStart :: real

text \<open>The three module-level maps \<^verbatim>\<open>store\<close>, \<^verbatim>\<open>rpmWindows\<close> and \<^verbatim>\<open>tpdWindows\<close>.\<close>

record Tracker =
  store :: "string \<rightharpoonup> RateLimitInfo"
  rpmWindows :: "string \<rightharpoonup> real list"
  tpdWindows :: "string \<rightharpoonup> TpdEntry"

definition emptyTracker :: Tracker where
  "emptyTracker = \<lparr>store = Map.empty, rpmWindows = Map.empty, tpdWindows = Map.empty\<rparr>"

subsection \<open>Model identifiers (groq/personas.ts) and their static limits\<close>

definition GPT_OSS_120B :: string where "GPT_OSS_120B = ''openai/gpt-oss-120b''"
definition KIMI_K2 :: string where "KIMI_K2 = ''moonshotai/kimi-k2-instruct''"
definition KIMI_K2_0905 :: string where "KIMI_K2_0905 = ''moonshotai/kimi-k2-instruct-0905''"
definition LLAMA4_SCOUT :: string where "LLAMA4_SCOUT = ''meta-llama/llama-4-scout-17b-16e-instruct''"
definition LLAMA4_MAVERICK :: string where "LLAMA4_MAVERICK = ''meta-llama/llama-4-maverick-17b-128e-instruct''"
definition LLAMA33_70B :: string where "LLAMA33_70B = ''llama-3.3-70b-versatile''"
definition LLAMA31_8B :: string where "LLAMA31_8B = ''llama-3.1-8b-instant''"
definition QWEN3_32B :: string where "QWEN3_32B = ''qwen/qwen3-32b''"
definition COMPOUND :: string where "COMPOUND = ''groq/compound''"
definition COMPOUND_MINI :: string where "COMPOUND_MINI = ''groq/compound-mini''"

definition DATA_PROCESSING_MODEL :: string where "DATA_PROCESSING_MODEL = LLAMA4_SCOUT"
definition EMERGENCY_MODEL :: string where "EMERGENCY_MODEL = LLAMA31_8B"

definition MODEL_LIMITS_table :: "(string \<times> ModelLimit) list" where
  "MODEL_LIMITS_table =
     [(GPT_OSS_120B,    \<lparr>ModelLimit.rpm = 30, ModelLimit.tpd = 200000\<rparr>),
      (KIMI_K2,         \<lparr>ModelLimit.rpm = 60, ModelLimit.tpd = 300000\<rparr>),
      (KIMI_K2_0905,    \<lparr>ModelLimit.rpm = 60, ModelLimit.tpd = 300000\<rparr>),
      (LLAMA4_SCOUT,    \<lparr>ModelLimit.rpm = 30, ModelLimit.tpd = 500000\<rparr>),
      (LLAMA4_MAVERICK, \<lparr>ModelLimit.rpm = 30, ModelLimit.tpd = 500000\<rparr>),
      (LLAMA33_70B,     \<lparr>ModelLimit.rpm = 30, ModelLimit.tpd = 100000\<rparr>),
      (LLAMA31_8B,      \<lparr>ModelLimit.rpm = 30, ModelLimit.tpd = 500000\<rparr>),
      (QWEN3_32B,       \<lparr>ModelLimit.rpm = 60, ModelLimit.tpd = 500000\<rparr>),
      (COMPOUND,        \<lparr>ModelLimit.rpm = 30, ModelLimit.tpd = \<infinity>\<rparr>),
      (COMPOUND_MINI,   \<lparr>ModelLimit.rpm = 30, ModelLimit.tpd = \<infinity>\<rparr>)]"

definition MODEL_LIMITS :: "string \<rightharpoonup> ModelLimit" where
  "MODEL_LIMITS = map_of MODEL_LIMITS_table"

subsection \<open>The sliding window of requests per minute\<close>

definition RPM_WINDOW_MS :: real where "RPM_WINDOW_MS = 60000"

definition recordModelRequest :: "real \<Rightarrow> string \<Rightarrow> Tracker \<Rightarrow> Tracker" where
  "recordModelRequest now m st =
     (let cutoff = now - RPM_WINDOW_MS;
          timestamps = (case rpmWindows st m of None \<Rightarrow> [] | Some w \<Rightarrow> w);
          pruned = filter (\<lambda>ts. ts > cutoff) timestamps @ [now]
      in st\<lparr>rpmWindows := (rpmWindows st)(m \<mapsto> pruned)\<rparr>)"

definition rpmUsagePercent :: "real \<Rightarrow> string \<Rightarrow> Tracker \<Rightarrow> real \<times> Tracker" where
  "rpmUsagePercent now m st =
     (case MODEL_LIMITS m of
        None \<Rightarrow> (-1, st)
      | Some limits \<Rightarrow>
          (case rpmWindows st m of
             None \<Rightarrow> (-1, st)
           | Some timestamps \<Rightarrow>
               (let cutoff = now - RPM_WINDOW_MS;
                    recent = filter (\<lambda>ts. ts > cutoff) timestamps
                in ((real (length recent) / real (ModelLimit.rpm limits)) * 100,
                    st\<lparr>rpmWindows := (rpmWindows st)(m \<mapsto> recent)\<rparr>))))"

subsection \<open>The daily token accumulator\<close>

definition TPD_WINDOW_MS :: real where "TPD_WINDOW_MS = 86400000"

definition recordModelTokens :: "real \<Rightarrow> string \<Rightarrow> real \<Rightarrow> Tracker \<Rightarrow> Tracker" where
  "recordModelTokens now m n st =
     (case tpdWindows st m of
        None \<Rightarrow> st\<lparr>tpdWindows := (tpdWindows st)(m \<mapsto> \<lparr>tokens = n, dayStart = now\<rparr>)\<rparr>
      | Some entry \<Rightarrow>
          if now - dayStart entry \<ge> TPD_WINDOW_MS
          then st\<lparr>tpdWindows := (tpdWindows st)(m \<mapsto> \<lparr>tokens = n, dayStart = now\<rparr>)\<rparr>
          else st\<lparr>tpdWindows := (tpdWindows st)(m \<mapsto> entry\<lparr>tokens := tokens entry + n\<rparr>)\<rparr>)"

definition tpdUsagePercent :: "real \<Rightarrow> string \<Rightarrow> Tracker \<Rightarrow> real" where
  "tpdUsagePercent now m st =
     (case MODEL_LIMITS m of
        None \<Rightarrow> -1
      | Some limits \<Rightarrow>
          if ModelLimit.tpd limits = \<infinity> then -1
          else (case tpdWindows st m of
                  None \<Rightarrow> -1
                | Some entry \<Rightarrow>
                    if now - dayStart entry \<ge> TPD_WINDOW_MS then 0
                    else min 100 ((tokens entry / real (the_enat (ModelLimit.tpd limits))) * 100)))"

subsection \<open>The header snapshot\<close>

text \<open>
  The six rate-limit headers of a response, after parsing: a header that is absent or
  empty is \<open>None\<close>; a count header that is present carries the number that
  \<^verbatim>\<open>parseInt(h) || 0\<close> yields, a reset header the milliseconds that \<^verbatim>\<open>parseDuration\<close>
  yields. The parsers themselves are not modelled.
\<close>

record Headers =
  limitReq :: "real option"
  remainReq :: "real option"
  resetReq :: "real option"
  limitTok :: "real option"
  remainTok :: "real option"
  resetTok :: "real option"

definition orZero :: "real option \<Rightarrow> real" where
  "orZero h = (case h of None \<Rightarrow> 0 | Some v \<Rightarrow> v)"

definition updateFromHeaders :: "real \<Rightarrow> string \<Rightarrow> Headers \<Rightarrow> Tracker \<Rightarrow> Tracker" where
  "updateFromHeaders now m h st =
     (if limitReq h = None \<and> remainReq h = None then st
      else st\<lparr>store := (store st)(m \<mapsto>
             \<lparr>rpdLimit = orZero (limitReq h),
              rpdRemaining = orZero (remainReq h),
              rpdResetAt = (case resetReq h of None \<Rightarrow> 0 | Some dur \<Rightarrow> now + dur),
              tpmLimit = orZero (limitTok h),
              tpmRemaining = orZero (remainTok h),
              tpmResetAt = (case resetTok h of None \<Rightarrow> 0 | Some dur \<Rightarrow> now + dur),
              updatedAt = now\<rparr>)\<rparr>)"

subsection \<open>Load calculation\<close>

definition dimensionUsage :: "real \<Rightarrow> real \<Rightarrow> real \<Rightarrow> real \<Rightarrow> real" where
  "dimensionUsage now limit remaining resetAt =
     (if limit \<le> 0 then -1
      else if resetAt > 0 \<and> now > resetAt then 0
      else max 0 (min 100 (((limit - remaining) / limit) * 100)))"

definition getLoadInfo :: "real \<Rightarrow> string \<Rightarrow> Tracker \<Rightarrow> LoadInfo \<times> Tracker" where
  "getLoadInfo now m st =
     (let info = store st m;
          (rpm0, st') = rpmUsagePercent now m st;
          tpd0 = tpdUsagePercent now m st'
      in case info of
           None \<Rightarrow>
             (\<lparr>tpm = -1, rpm = (if rpm0 \<ge> 0 then rpm0 else -1), rpd = -1, tpd = tpd0\<rparr>, st')
         | Some i \<Rightarrow>
             (let rpd0 = dimensionUsage now (rpdLimit i) (rpdRemaining i) (rpdResetAt i);
                  tpm0 = dimensionUsage now (tpmLimit i) (tpmRemaining i) (tpmResetAt i)
              in (\<lparr>tpm = tpm0, rpm = (if rpm0 \<ge> 0 then rpm0 else -1), rpd = rpd0, tpd = tpd0\<rparr>,
                  st')))"

definition SKIP_THRESHOLD :: real where "SKIP_THRESHOLD = 95"

definition shouldSkipModel :: "real \<Rightarrow> string \<Rightarrow> Tracker \<Rightarrow> bool \<times> Tracker" where
  "shouldSkipModel now m st =
     (let (load, st') = getLoadInfo now m st;
          skip = (tpm load \<ge> SKIP_THRESHOLD \<or> rpm load \<ge> SKIP_THRESHOLD \<or>
                  rpd load \<ge> SKIP_THRESHOLD \<or> tpd load \<ge> SKIP_THRESHOLD)
      in (skip, st'))"

text \<open>Recording one request at each of the given times, in order.\<close>

fun recordRequests :: "real list \<Rightarrow> string \<Rightarrow> Tracker \<Rightarrow> Tracker" where
  "recordRequests [] m st = st"
| "recordRequests (t # ts) m st = recordRequests ts m (recordModelRequest t m st)"

section \<open>Strings and the regular expressions of the engine\<close>

definition ELLIPSIS :: nat where "ELLIPSIS = 0x2026"

text \<open>The line terminators (what \<^verbatim>\<open>.\<close> does not match) and the white space of
  \<^verbatim>\<open>\s\<close> and \<^verbatim>\<open>trim()\<close>.\<close>

definition isLineTerminator :: "nat \<Rightarrow> bool" where
  "isLineTerminator c = (c = 0x0A \<or> c = 0x0D \<or> c = 0x2028 \<or> c = 0x2029)"

definition isWhiteSpace :: "nat \<Rightarrow> bool" where
  "isWhiteSpace c =
     (c = 0x09 \<or> c = 0x0A \<or> c = 0x0B \<or> c = 0x0C \<or> c = 0x0D \<or> c = 0x20 \<or> c = 0xA0 \<or>
      c = 0x1680 \<or> (0x2000 \<le> c \<and> c \<le> 0x200A) \<or> c = 0x2028 \<or> c = 0x2029 \<or>
      c = 0x202F \<or> c = 0x205F \<or> c = 0x3000 \<or> c = 0xFEFF)"

definition isWordChar :: "nat \<Rightarrow> bool" where
  "isWordChar c =
     ((0x30 \<le> c \<and> c \<le> 0x39) \<or> (0x41 \<le> c \<and> c \<le> 0x5A) \<or> c = 0x5F \<or>
      (0x61 \<le> c \<and> c \<le> 0x7A))"

definition isLatinLetter :: "nat \<Rightarrow> bool" where
  "isLatinLetter c = ((0x41 \<le> c \<and> c \<le> 0x5A) \<or> (0x61 \<le> c \<and> c \<le> 0x7A))"

definition trim :: "jsstring \<Rightarrow> jsstring" where
  "trim s = rev (dropWhile isWhiteSpace (rev (dropWhile isWhiteSpace s)))"

definition startsWith :: "jsstring \<Rightarrow> jsstring \<Rightarrow> bool" where
  "startsWith s pat = (take (length pat) s = pat)"

fun jsIncludes :: "jsstring \<Rightarrow> jsstring \<Rightarrow> bool" where
  "jsIncludes [] pat = (pat = [])"
| "jsIncludes (c # cs) pat = (startsWith (c # cs) pat \<or> jsIncludes cs pat)"

fun indexOf :: "jsstring \<Rightarrow> jsstring \<Rightarrow> nat option" where
  "indexOf [] pat = (if pat = [] then Some 0 else None)"
| "indexOf (c # cs) pat =
     (if startsWith (c # cs) pat then Some 0 else map_option Suc (indexOf cs pat))"

text \<open>
  \<^verbatim>\<open>s.replace(/re/g, ...)\<close> for a pattern that matches no empty string. The matcher is
  given the code unit before the position (for \<^verbatim>\<open>^\<close> and the lookbehinds) and the rest of
  the string; it returns the length of the match there and the replacement. The scan goes
  left to right and resumes behind each match; \<open>skip\<close> counts the code units of a match
  still to be passed over.
\<close>

fun replaceAll ::
  "(nat option \<Rightarrow> jsstring \<Rightarrow> (nat \<times> jsstring) option) \<Rightarrow> nat option \<Rightarrow> nat \<Rightarrow> jsstring \<Rightarrow> jsstring"
where
  "replaceAll mt prev skip [] = []"
| "replaceAll mt prev (Suc k) (c # cs) = replaceAll mt (Some c) k cs"
| "replaceAll mt prev 0 (c # cs) =
     (case mt prev (c # cs) of
        Some (n, rep) \<Rightarrow> rep @ replaceAll mt (Some c) (n - 1) cs
      | None \<Rightarrow> c # replaceAll mt (Some c) 0 cs)"

text \<open>\<^verbatim>\<open>(.+?)\<close> followed by the rest of a pattern: the least number of code units, at
  least one and none of them a line terminator, after which the continuation matches. The
  continuation sees the last code unit consumed and what follows it.\<close>

fun lazyDots :: "(nat \<Rightarrow> jsstring \<Rightarrow> bool) \<Rightarrow> jsstring \<Rightarrow> nat option" where
  "lazyDots cont [] = None"
| "lazyDots cont (c # cs) =
     (if isLineTerminator c then None
      else if cont c cs then Some 1
      else map_option Suc (lazyDots cont cs))"

subsection \<open>stripThinkBlocks (groq/client.ts)\<close>

definition thinkMatch :: "nat option \<Rightarrow> jsstring \<Rightarrow> (nat \<times> jsstring) option" where
  "thinkMatch prev s =
     (if startsWith s (js ''<think>'')
      then (case indexOf (drop 7 s) (js ''</think>'') of
              None \<Rightarrow> None
            | Some j \<Rightarrow> Some (7 + j + 8, []))
      else None)"

definition stripThinkBlocks :: "jsstring \<Rightarrow> jsstring" where
  "stripThinkBlocks c =
     (let stripped = trim (replaceAll thinkMatch None 0 c)
      in if length stripped > 0 then stripped else trim c)"

subsection \<open>sanitizeContent\<close>

text \<open>\<^verbatim>\<open>/DD(.+?)DD/\<close> for a delimiter \<open>DD\<close>, replaced by its group.\<close>

definition delimitedMatch :: "jsstring \<Rightarrow> nat option \<Rightarrow> jsstring \<Rightarrow> (nat \<times> jsstring) option" where
  "delimitedMatch d prev s =
     (if startsWith s d
      then (case lazyDots (\<lambda>p r. startsWith r d) (drop (length d) s) of
              None \<Rightarrow> None
            | Some k \<Rightarrow> Some (k + 2 * length d, take k (drop (length d) s)))
      else None)"

text \<open>\<^verbatim>\<open>/(?<!X)X(?!X)(.+?)(?<!X)X(?!X)/\<close> for a single marker \<open>X\<close>, replaced by its group.\<close>

definition singleMarkerMatch :: "nat \<Rightarrow> nat option \<Rightarrow> jsstring \<Rightarrow> (nat \<times> jsstring) option" where
  "singleMarkerMatch x prev s =
     (case s of
        [] \<Rightarrow> None
      | c # r \<Rightarrow>
          if c = x \<and> prev \<noteq> Some x \<and> \<not> startsWith r [x]
          then (case lazyDots (\<lambda>p r'. p \<noteq> x \<and> startsWith r' [x] \<and> \<not> startsWith (drop 1 r') [x]) r of
                  None \<Rightarrow> None
                | Some k \<Rightarrow> Some (k + 2, take k r))
          else None)"

text \<open>\<^verbatim>\<open>/^#{1,6}\s+/gm\<close>, replaced by the empty string: at the start of a line, one to six
  hash signs not followed by a seventh, then all the white space that follows.\<close>

definition headerMatch :: "nat option \<Rightarrow> jsstring \<Rightarrow> (nat \<times> jsstring) option" where
  "headerMatch prev s =
     (if (case prev of None \<Rightarrow> True | Some p \<Rightarrow> isLineTerminator p)
      then (let h = length (takeWhile (\<lambda>c. c = 0x23) s);
                sp = length (takeWhile isWhiteSpace (drop h s))
            in if 1 \<le> h \<and> h \<le> 6 \<and> 1 \<le> sp then Some (h + sp, []) else None)
      else None)"

text \<open>\<^verbatim>\<open>/\n{2,}/g\<close>, replaced by one newline.\<close>

definition newlinesMatch :: "nat option \<Rightarrow> jsstring \<Rightarrow> (nat \<times> jsstring) option" where
  "newlinesMatch prev s =
     (let n = length (takeWhile (\<lambda>c. c = 0x0A) s)
      in if 2 \<le> n then Some (n, [0x0A]) else None)"

definition sanitizeContent :: "jsstring \<Rightarrow> jsstring" where
  "sanitizeContent s =
     (let s1 = replaceAll (delimitedMatch (js ''**'')) None 0 s;
          s2 = replaceAll (delimitedMatch (js ''__'')) None 0 s1;
          s3 = replaceAll (singleMarkerMatch 0x2A) None 0 s2;
          s4 = replaceAll (singleMarkerMatch 0x5F) None 0 s3;
          s5 = replaceAll headerMatch None 0 s4;
          s6 = replaceAll (delimitedMatch [0x60]) None 0 s5
      in replaceAll newlinesMatch None 0 s6)"

subsection \<open>The patterns of condition extraction\<close>

text \<open>
  \<^verbatim>\<open>\s*(.+)\<close> at the start of \<open>r\<close>, with the backtracking of the engine: the white space
  is taken greedily; if a code unit follows it, the group runs from there to the end of
  the line; if the string ends in white space, the white space is given back one code unit
  at a time until one that is not a line terminator can start the group.
\<close>

definition matchSpacesThenDots :: "jsstring \<Rightarrow> jsstring option" where
  "matchSpacesThenDots r =
     (let k = length (takeWhile isWhiteSpace r)
      in if k < length r
         then Some (takeWhile (\<lambda>c. \<not> isLineTerminator c) (drop k r))
         else (case filter (\<lambda>j. \<not> isLineTerminator (r ! j)) (rev [0..<k]) of
                 [] \<Rightarrow> None
               | j # _ \<Rightarrow> Some (takeWhile (\<lambda>c. \<not> isLineTerminator c) (drop j r))))"

text \<open>\<^verbatim>\<open>result.match(/CONDITION:\s*(.+)/)\<close>: the group of the leftmost match.\<close>

fun matchCondition :: "jsstring \<Rightarrow> jsstring option" where
  "matchCondition [] = None"
| "matchCondition (c # cs) =
     (if startsWith (c # cs) (js ''CONDITION:'')
      then (case matchSpacesThenDots (drop 10 (c # cs)) of
              Some g \<Rightarrow> Some g
            | None \<Rightarrow> matchCondition cs)
      else matchCondition cs)"

text \<open>\<^verbatim>\<open>result.match(/LANG:\s*(en|ja|ko)/i)\<close>, with the group in lower case. Without the
  flag \<^verbatim>\<open>u\<close>, ignoring case identifies only the ASCII letters with their capitals.\<close>

definition asciiUpper :: "nat \<Rightarrow> nat" where
  "asciiUpper c = (if 0x61 \<le> c \<and> c \<le> 0x7A then c - 0x20 else c)"

definition matchLangAt :: "jsstring \<Rightarrow> SupportedLanguage option" where
  "matchLangAt s =
     (if map asciiUpper (take 5 s) = js ''LANG:''
      then (let code = map asciiUpper (take 2 (dropWhile isWhiteSpace (drop 5 s)))
            in if code = js ''EN'' then Some En
               else if code = js ''JA'' then Some Ja
               else if code = js ''KO'' then Some Ko
               else None)
      else None)"

fun matchLang :: "jsstring \<Rightarrow> SupportedLanguage option" where
  "matchLang [] = None"
| "matchLang (c # cs) =
     (case matchLangAt (c # cs) of Some l \<Rightarrow> Some l | None \<Rightarrow> matchLang cs)"

subsection \<open>detectLanguage (i18n/detector.ts) and hasLanguageMixing\<close>

definition detectLanguage :: "jsstring \<Rightarrow> SupportedLanguage" where
  "detectLanguage s =
     (let korean = length (filter (\<lambda>c. (0xAC00 \<le> c \<and> c \<le> 0xD7AF) \<or> (0x1100 \<le> c \<and> c \<le> 0x11FF) \<or>
                                        (0x3130 \<le> c \<and> c \<le> 0x318F)) s);
          japanese = length (filter (\<lambda>c. (0x3040 \<le> c \<and> c \<le> 0x309F) \<or> (0x30A0 \<le> c \<and> c \<le> 0x30FF)) s);
          english = length (filter isLatinLetter s);
          total = korean + japanese + english
      in if total = 0 then En
         else if korean \<ge> japanese \<and> korean \<ge> english then Ko
         else if japanese \<ge> korean \<and> japanese \<ge> english then Ja
         else En)"

text \<open>The number of matches of \<^verbatim>\<open>/[a-zA-Z]{3,}/g\<close>: the maximal runs of at least three
  letters. The second argument is the length of the run that ends at the position.\<close>

fun latinWords :: "jsstring \<Rightarrow> nat \<Rightarrow> nat" where
  "latinWords [] run = (if run \<ge> 3 then 1 else 0)"
| "latinWords (c # cs) run =
     (if isLatinLetter c then latinWords cs (Suc run)
      else (if run \<ge> 3 then 1 else 0) + latinWords cs 0)"

definition hasLanguageMixing :: "jsstring \<Rightarrow> SupportedLanguage \<Rightarrow> bool" where
  "hasLanguageMixing s lang =
     (case lang of
        Ko \<Rightarrow> list_ex (\<lambda>c. (0x4E00 \<le> c \<and> c \<le> 0x9FFF) \<or> (0x3040 \<le> c \<and> c \<le> 0x309F) \<or>
                          (0x30A0 \<le> c \<and> c \<le> 0x30FF) \<or> (0x00C0 \<le> c \<and> c \<le> 0x024F) \<or>
                          (0x1E00 \<le> c \<and> c \<le> 0x1EFF)) s
      | En \<Rightarrow> list_ex (\<lambda>c. (0x4E00 \<le> c \<and> c \<le> 0x9FFF) \<or> (0x3040 \<le> c \<and> c \<le> 0x309F) \<or>
                          (0x30A0 \<le> c \<and> c \<le> 0x30FF) \<or> (0xAC00 \<le> c \<and> c \<le> 0xD7AF)) s
      | Ja \<Rightarrow> latinWords s 0 \<ge> 3)"

subsection \<open>extractVerdictTag\<close>

text \<open>
  \<^verbatim>\<open>toLowerCase()\<close>, exact on the ASCII letters and on the two other code units whose
  lower case contains an ASCII letter (the Kelvin sign and the dotted capital I). Any
  other code unit is kept as it is: its lower case holds no ASCII code unit, and the
  tests below look at ASCII code units only, every other one being a non-word character.
\<close>

definition toLowerCase :: "jsstring \<Rightarrow> jsstring" where
  "toLowerCase s =
     concat (map (\<lambda>c. if 0x41 \<le> c \<and> c \<le> 0x5A then [c + 0x20]
                       else if c = 0x212A then [0x6B]
                       else if c = 0x130 then [0x69, 0x307]
                       else [c]) s)"

text \<open>\<^verbatim>\<open>/\bword\b/.test(s)\<close> for a word of word characters.\<close>

fun testWord :: "jsstring \<Rightarrow> nat option \<Rightarrow> jsstring \<Rightarrow> bool" where
  "testWord wd prev [] = False"
| "testWord wd prev (c # cs) =
     ((startsWith (c # cs) wd \<and>
       (case prev of None \<Rightarrow> True | Some p \<Rightarrow> \<not> isWordChar p) \<and>
       (case drop (length wd) (c # cs) of [] \<Rightarrow> True | n # _ \<Rightarrow> \<not> isWordChar n))
      \<or> testWord wd (Some c) cs)"

definition extractVerdictTag :: "jsstring \<Rightarrow> Verdict option" where
  "extractVerdictTag c =
     (let lower = toLowerCase c
      in if jsIncludes lower (js ''[approve]'') then Some APPROVE
         else if jsIncludes lower (js ''[deny]'') then Some DENY
         else if jsIncludes lower (js ''[conditional]'') then Some CONDITIONAL
         else if jsIncludes lower (js ''[refuse]'') then Some REFUSE
         else if testWord (js ''approve'') None lower then Some APPROVE
         else if testWord (js ''deny'') None lower then Some DENY
         else if testWord (js ''conditional'') None lower then Some CONDITIONAL
         else if testWord (js ''refuse'') None lower then Some REFUSE
         else None)"

section \<open>The provider and the client (groq/client.ts)\<close>

text \<open>
  One call of the provider: either \<^verbatim>\<open>fetch\<close> rejects (a network error, or the abort
  after 30 s), or a response arrives with its status, its rate-limit headers and, when
  the body parses into a completion with a usage count, the content of the first choice
  (the empty string when absent) and \<^verbatim>\<open>usage.total_tokens\<close>.
\<close>

datatype ApiOutcome =
    FetchRejected
  | Response nat Headers "(jsstring \<times> real) option"

text \<open>
  The world of the engine: the tracker, the clock, the script (for each coming call, how
  long it takes and what the provider does; a call beyond the script finds the network
  down), and the list of the calls made so far, each with the model it went to and what
  \<^verbatim>\<open>chat\<close> threw or returned. The list is written by \<open>chat\<close> only and read by no
  function: it is there for theorems to speak of the calls made.
\<close>

record World =
  tracker :: Tracker
  clock :: real
  script :: "(real \<times> ApiOutcome) list"
  calls :: "(string \<times> (JsError + jsstring)) list"

definition chat :: "string \<Rightarrow> World \<Rightarrow> (JsError + jsstring) \<times> World" where
  "chat m w =
     (let w1 = w\<lparr>tracker := recordModelRequest (clock w) m (tracker w)\<rparr>;
          (res, w') =
            (case script w1 of
               [] \<Rightarrow> (Inl FetchFailure, w1)
             | (duration, outcome) # rest \<Rightarrow>
                 (let now = clock w1 + duration;
                      w2 = w1\<lparr>clock := now, script := rest\<rparr>
                  in case outcome of
                       FetchRejected \<Rightarrow> (Inl FetchFailure, w2)
                     | Response status headers body \<Rightarrow>
                         (let w3 = w2\<lparr>tracker := updateFromHeaders now m headers (tracker w2)\<rparr>
                          in if \<not> (200 \<le> status \<and> status \<le> 299)
                             then (if status = 429 \<or> status = 503
                                   then (Inl (GroqRateLimitError status), w3)
                                   else (Inl (GroqApiError status), w3))
                             else (case body of
                                     None \<Rightarrow> (Inl BadResponseBody, w3)
                                   | Some (rawContent, total_tokens) \<Rightarrow>
                                       (Inr (stripThinkBlocks rawContent),
                                        w3\<lparr>tracker := recordModelTokens now m total_tokens (tracker w3)\<rparr>)))))
      in (res, w'\<lparr>calls := calls w' @ [(m, res)]\<rparr>))"

section \<open>The engine (magi/engine.ts)\<close>

definition CHAR_LIMIT :: nat where "CHAR_LIMIT = 240"
definition CONDITION_LIMIT :: nat where "CONDITION_LIMIT = 120"
definition DATA_MODELS :: "string list" where "DATA_MODELS = [DATA_PROCESSING_MODEL, EMERGENCY_MODEL]"
definition SEARCH_MODELS :: "string list" where "SEARCH_MODELS = [COMPOUND, COMPOUND_MINI]"
definition IMAGE_DESCRIPTION_LIMIT :: nat where "IMAGE_DESCRIPTION_LIMIT = 200"

datatype LanguageRequest = Auto | Fixed SupportedLanguage

record ExtractionResult =
  condition :: "jsstring option"
  detectedLang :: "SupportedLanguage option"

record SearchResult =
  context_sr :: "jsstring option"
  failed :: bool

datatype CondenseTarget = ResponseTarget | ConditionTarget

text \<open>
  A loop \<^verbatim>\<open>for (let i = 0; i < models.length; i++)\<close> over a chain of models is a
  recursion on the models still to come: the head is \<^verbatim>\<open>models[i]\<close>, and
  \<^verbatim>\<open>i < models.length - 1\<close> says that the tail is not empty. The equation for the empty
  list is the statement after the loop.
\<close>

fun dataChatLoop :: "string list \<Rightarrow> World \<Rightarrow> (JsError + jsstring \<times> string) \<times> World" where
  "dataChatLoop [] w = (Inl DataModelsExhausted, w)"
| "dataChatLoop (m # rest) w =
     (case chat m w of
        (Inr result, w1) \<Rightarrow> (Inr (result, m), w1)
      | (Inl err, w1) \<Rightarrow> if rest \<noteq> [] then dataChatLoop rest w1 else (Inl err, w1))"

definition dataChat :: "World \<Rightarrow> (JsError + jsstring \<times> string) \<times> World" where
  "dataChat w = dataChatLoop DATA_MODELS w"

definition condenseLimit :: "CondenseTarget \<Rightarrow> nat" where
  "condenseLimit target = (case target of ResponseTarget \<Rightarrow> CHAR_LIMIT | ConditionTarget \<Rightarrow> CONDITION_LIMIT)"

definition condense :: "string \<Rightarrow> CondenseTarget \<Rightarrow> World \<Rightarrow> jsstring option \<times> World" where
  "condense m target w =
     (let limit = condenseLimit target
      in case chat m w of
           (Inl err, w1) \<Rightarrow> (None, w1)
         | (Inr result, w1) \<Rightarrow>
             (let trimmed = trim result
              in if length trimmed = 0 then (None, w1)
                 else if length trimmed \<le> limit then (Some trimmed, w1)
                 else (Some (take (limit - 1) trimmed @ [ELLIPSIS]), w1)))"

definition purifyLanguage :: "string \<Rightarrow> World \<Rightarrow> jsstring option \<times> World" where
  "purifyLanguage m w =
     (case chat m w of
        (Inl err, w1) \<Rightarrow> (None, w1)
      | (Inr result, w1) \<Rightarrow>
          (let trimmed = trim result
           in if length trimmed = 0 then (None, w1) else (Some trimmed, w1)))"

subsection \<open>Condition extraction\<close>

text \<open>Lines 140 to 142: the condition kept for a raw condition.\<close>

definition shortenCondition :: "string \<Rightarrow> jsstring \<Rightarrow> World \<Rightarrow> jsstring \<times> World" where
  "shortenCondition m rawCond w =
     (if length rawCond > CONDITION_LIMIT
      then (case condense m ConditionTarget w of
              (Some c, w1) \<Rightarrow> (c, w1)
            | (None, w1) \<Rightarrow> (take (CONDITION_LIMIT - 1) rawCond @ [ELLIPSIS], w1))
      else (rawCond, w))"

fun extractConditionLoop :: "LanguageRequest \<Rightarrow> string list \<Rightarrow> World \<Rightarrow> ExtractionResult \<times> World" where
  "extractConditionLoop lang [] w = (\<lparr>condition = None, detectedLang = None\<rparr>, w)"
| "extractConditionLoop lang (m # rest) w =
     (case chat m w of
        (Inl err, w1) \<Rightarrow>
          if rest \<noteq> [] then extractConditionLoop lang rest w1
          else (\<lparr>condition = None, detectedLang = None\<rparr>, w1)
      | (Inr result, w1) \<Rightarrow>
          if result = []
          then (if rest \<noteq> [] then extractConditionLoop lang rest w1
                else (\<lparr>condition = None, detectedLang = None\<rparr>, w1))
          else (let detected = (if lang = Auto then matchLang result else None)
                in case matchCondition result of
                     None \<Rightarrow>
                       if rest \<noteq> [] then extractConditionLoop lang rest w1
                       else (\<lparr>condition = None, detectedLang = detected\<rparr>, w1)
                   | Some g \<Rightarrow>
                       if length (trim g) = 0
                       then (if rest \<noteq> [] then extractConditionLoop lang rest w1
                             else (\<lparr>condition = None, detectedLang = detected\<rparr>, w1))
                       else (let (cond, w2) = shortenCondition m (trim g) w1
                             in (\<lparr>condition = Some cond, detectedLang = detected\<rparr>, w2))))"

definition extractCondition :: "LanguageRequest \<Rightarrow> World \<Rightarrow> ExtractionResult \<times> World" where
  "extractCondition lang w = extractConditionLoop lang DATA_MODELS w"

subsection \<open>Search context\<close>

fun fetchSearchContextLoop :: "string list \<Rightarrow> World \<Rightarrow> SearchResult \<times> World" where
  "fetchSearchContextLoop [] w = (\<lparr>context_sr = None, failed = True\<rparr>, w)"
| "fetchSearchContextLoop (m # rest) w =
     (case chat m w of
        (Inl err, w1) \<Rightarrow>
          if rest \<noteq> [] then fetchSearchContextLoop rest w1
          else (\<lparr>context_sr = None, failed = True\<rparr>, w1)
      | (Inr result, w1) \<Rightarrow>
          if result = [] \<or> trim result = js ''NONE''
          then (\<lparr>context_sr = None, failed = False\<rparr>, w1)
          else (\<lparr>context_sr = Some (trim result), failed = False\<rparr>, w1))"

definition fetchSearchContext :: "World \<Rightarrow> SearchResult \<times> World" where
  "fetchSearchContext w = fetchSearchContextLoop SEARCH_MODELS w"

subsection \<open>Verdict classification and image description\<close>

definition classifyVerdict :: "World \<Rightarrow> Verdict \<times> World" where
  "classifyVerdict w =
     (case dataChat w of
        (Inl err, w1) \<Rightarrow> (REFUSE, w1)
      | (Inr (result, m), w1) \<Rightarrow>
          if result = [] then (REFUSE, w1)
          else (case extractVerdictTag result of
                  Some v \<Rightarrow> (v, w1)
                | None \<Rightarrow> (REFUSE, w1)))"

definition describeImage :: "World \<Rightarrow> jsstring option \<times> World" where
  "describeImage w =
     (case chat DATA_PROCESSING_MODEL w of
        (Inl err, w1) \<Rightarrow> (None, w1)
      | (Inr c, w1) \<Rightarrow>
          if c = [] \<or> length (trim c) = 0 then (None, w1)
          else (let description = trim c
                in if length description > IMAGE_DESCRIPTION_LIMIT
                   then (Some (take (IMAGE_DESCRIPTION_LIMIT - 1) description @ [ELLIPSIS]), w1)
                   else (Some description, w1)))"

subsection \<open>Localised messages (i18n/messages.ts) and persona configurations\<close>

text \<open>The message bundles are JSON files outside the sources at hand; they are a
  parameter. \<open>tMessage\<close> is the function \<^verbatim>\<open>t\<close> without variables.\<close>

type_synonym Bundles = "SupportedLanguage \<Rightarrow> string \<rightharpoonup> jsstring"

definition tMessage :: "Bundles \<Rightarrow> SupportedLanguage \<Rightarrow> string \<Rightarrow> jsstring" where
  "tMessage b lang k =
     (case b lang k of
        Some v \<Rightarrow> v
      | None \<Rightarrow> (case b En k of Some v \<Rightarrow> v | None \<Rightarrow> js k))"

text \<open>\<^verbatim>\<open>getPersonaConfigs(lang)\<close>, by persona; the language only selects the prompt.\<close>

definition getPersonaConfigs :: "SupportedLanguage \<Rightarrow> PersonaName \<Rightarrow> PersonaConfig" where
  "getPersonaConfigs lang p =
     (case p of
        MELCHIOR_1 \<Rightarrow>
          \<lparr>name = MELCHIOR_1, PersonaConfig.model = QWEN3_32B, fallbackModels = [LLAMA4_MAVERICK],
           emergencyModel = EMERGENCY_MODEL, temperature = 1 / 10\<rparr>
      | BALTHASAR_2 \<Rightarrow>
          \<lparr>name = BALTHASAR_2, PersonaConfig.model = LLAMA33_70B, fallbackModels = [GPT_OSS_120B],
           emergencyModel = EMERGENCY_MODEL, temperature = 3 / 10\<rparr>
      | CASPER_3 \<Rightarrow>
          \<lparr>name = CASPER_3, PersonaConfig.model = KIMI_K2, fallbackModels = [KIMI_K2_0905],
           emergencyModel = EMERGENCY_MODEL, temperature = 5 / 10\<rparr>)"

subsection \<open>The persona query\<close>

text \<open>Lines 589 to 595: the language-purity check, with one rewrite call on the same
  model; the text is kept as it is when the rewrite fails.\<close>

definition purifyStep :: "string \<Rightarrow> SupportedLanguage \<Rightarrow> jsstring \<Rightarrow> World \<Rightarrow> jsstring \<times> World" where
  "purifyStep m lang final0 w =
     (if hasLanguageMixing final0 lang
      then (case purifyLanguage m w of
              (Some purified, w1) \<Rightarrow> (purified, w1)
            | (None, w1) \<Rightarrow> (final0, w1))
      else (final0, w))"

text \<open>Lines 596 to 622: the length cap, the markup stripping and the response.\<close>

definition capStep ::
  "Bundles \<Rightarrow> PersonaConfig \<Rightarrow> SupportedLanguage \<Rightarrow> real \<Rightarrow> string \<Rightarrow> jsstring \<Rightarrow> World \<Rightarrow>
     PersonaResponse \<times> World"
where
  "capStep b config lang start m final1 w =
     (if length final1 > CHAR_LIMIT
      then (case condense m ResponseTarget w of
              (None, w1) \<Rightarrow>
                (\<lparr>persona = name config,
                  content = tMessage b lang ''outputOverflow'',
                  verdict = REFUSE,
                  model = m,
                  latencyMs = clock w1 - start,
                  error = Some CondenseFailedText\<rparr>, w1)
            | (Some condensed, w1) \<Rightarrow>
                (\<lparr>persona = name config,
                  content = sanitizeContent condensed,
                  verdict = REFUSE,
                  model = m,
                  latencyMs = clock w1 - start,
                  error = None\<rparr>, w1))
      else (\<lparr>persona = name config,
             content = sanitizeContent final1,
             verdict = REFUSE,
             model = m,
             latencyMs = clock w - start,
             error = None\<rparr>, w))"

text \<open>The body of the \<^verbatim>\<open>try\<close> block for one model: \<open>Inl\<close> is what it throws, \<open>Inr\<close> the
  response it returns.\<close>

definition personaAttempt ::
  "Bundles \<Rightarrow> PersonaConfig \<Rightarrow> SupportedLanguage \<Rightarrow> real \<Rightarrow> string \<Rightarrow> World \<Rightarrow>
     (JsError + PersonaResponse) \<times> World"
where
  "personaAttempt b config lang start m w =
     (case chat m w of
        (Inl err, w1) \<Rightarrow> (Inl err, w1)
      | (Inr c, w1) \<Rightarrow>
          if c = [] \<or> length (trim c) = 0 then (Inl EmptyResponseError, w1)
          else (let (final1, w2) = purifyStep m lang (trim c) w1;
                    (r, w3) = capStep b config lang start m final1 w2
                in (Inr r, w3)))"

fun queryPersonaLoop ::
  "Bundles \<Rightarrow> PersonaConfig \<Rightarrow> SupportedLanguage \<Rightarrow> real \<Rightarrow> string list \<Rightarrow> World \<Rightarrow>
     PersonaResponse \<times> World"
where
  "queryPersonaLoop b config lang start [] w =
     (\<lparr>persona = name config,
       content = tMessage b lang ''coreMalfunction'',
       verdict = REFUSE,
       model = PersonaConfig.model config,
       latencyMs = clock w - start,
       error = Some AllModelsExhaustedText\<rparr>, w)"
| "queryPersonaLoop b config lang start (m # rest) w =
     (if rest \<noteq> [] \<and> fst (shouldSkipModel (clock w) m (tracker w))
      then queryPersonaLoop b config lang start rest
             (w\<lparr>tracker := snd (shouldSkipModel (clock w) m (tracker w))\<rparr>)
      else (let w0 = (if rest \<noteq> []
                      then w\<lparr>tracker := snd (shouldSkipModel (clock w) m (tracker w))\<rparr>
                      else w)
            in case personaAttempt b config lang start m w0 of
                 (Inr r, w1) \<Rightarrow> (r, w1)
               | (Inl err, w1) \<Rightarrow>
                   if rest \<noteq> [] then queryPersonaLoop b config lang start rest w1
                   else (\<lparr>persona = name config,
                          content = tMessage b lang ''coreMalfunction'',
                          verdict = REFUSE,
                          model = m,
                          latencyMs = clock w1 - start,
                          error = Some (MessageOf err)\<rparr>, w1)))"

definition chainOf :: "PersonaConfig \<Rightarrow> string list" where
  "chainOf config = PersonaConfig.model config # fallbackModels config @ [emergencyModel config]"

definition queryPersona ::
  "Bundles \<Rightarrow> PersonaConfig \<Rightarrow> SupportedLanguage \<Rightarrow> World \<Rightarrow> PersonaResponse \<times> World"
where
  "queryPersona b config lang w = queryPersonaLoop b config lang (clock w) (chainOf config) w"

subsection \<open>The deliberation\<close>

datatype 'a PromiseSettledResult = Fulfilled 'a | Rejected "JsError option"

definition unwrap ::
  "Bundles \<Rightarrow> SupportedLanguage \<Rightarrow> PersonaResponse PromiseSettledResult \<Rightarrow> PersonaConfig \<Rightarrow>
     PersonaResponse"
where
  "unwrap b lang result fallbackConfig =
     (case result of
        Fulfilled v \<Rightarrow> v
      | Rejected reason \<Rightarrow>
          \<lparr>persona = name fallbackConfig,
           content = tMessage b lang ''coreMalfunction'',
           verdict = REFUSE,
           model = PersonaConfig.model fallbackConfig,
           latencyMs = 0,
           error = Some (case reason of Some e \<Rightarrow> MessageOf e | None \<Rightarrow> UnknownErrorText)\<rparr>)"

definition classifyResponse :: "PersonaResponse \<Rightarrow> World \<Rightarrow> Verdict \<times> World" where
  "classifyResponse r w = (if error r \<noteq> None then (REFUSE, w) else classifyVerdict w)"

text \<open>
  \<^verbatim>\<open>deliberate\<close>. The three persona queries, and then the three classifications, are
  started together and interleave at their calls of the provider; here each group runs
  in the order MELCHIOR, BALTHASAR, CASPER, one query after the other. A query never
  rejects, so each promise settles as fulfilled.
\<close>

definition deliberate ::
  "Bundles \<Rightarrow> jsstring \<Rightarrow> LanguageRequest \<Rightarrow> jsstring option \<Rightarrow> jsstring option \<Rightarrow>
     jsstring option \<Rightarrow> World \<Rightarrow> MagiDeliberation \<times> World"
where
  "deliberate b q lang0 imageBase64 uctx fctx w =
     (let prelimLang = (case lang0 of Fixed l \<Rightarrow> l | Auto \<Rightarrow> detectLanguage q);
          (image, w1) =
            (case imageBase64 of
               None \<Rightarrow> (None, w)
             | Some img \<Rightarrow> if img \<noteq> [] then describeImage w else (None, w));
          (extraction, w2) = extractCondition lang0 w1;
          approval = (case condition extraction of Some c \<Rightarrow> c | None \<Rightarrow> []);
          lang = (case lang0 of
                    Fixed l \<Rightarrow> l
                  | Auto \<Rightarrow> (case detectedLang extraction of Some l \<Rightarrow> l | None \<Rightarrow> prelimLang));
          configs = getPersonaConfigs lang;
          (search, w3) = fetchSearchContext w2;
          (p1, w4) = queryPersona b (configs MELCHIOR_1) lang w3;
          (p2, w5) = queryPersona b (configs BALTHASAR_2) lang w4;
          (p3, w6) = queryPersona b (configs CASPER_3) lang w5;
          r1 = unwrap b lang (Fulfilled p1) (configs MELCHIOR_1);
          r2 = unwrap b lang (Fulfilled p2) (configs BALTHASAR_2);
          r3 = unwrap b lang (Fulfilled p3) (configs CASPER_3);
          (v1, w7) = classifyResponse r1 w6;
          (v2, w8) = classifyResponse r2 w7;
          (v3, w9) = classifyResponse r3 w8
      in (\<lparr>question = q,
           approvalCondition = approval,
           searchContext = context_sr search,
           searchFailed = failed search,
           imageContext = image,
           fileContext = fctx,
           userContext = uctx,
           language = lang,
           melchior = r1\<lparr>verdict := v1\<rparr>,
           balthasar = r2\<lparr>verdict := v2\<rparr>,
           casper = r3\<lparr>verdict := v3\<rparr>\<rparr>, w9))"

section \<open>Worlds to run the engine on\<close>

definition noHeaders :: Headers where
  "noHeaders = \<lparr>limitReq = None, remainReq = None, resetReq = None,
                 limitTok = None, remainTok = None, resetTok = None\<rparr>"

definition noBundles :: Bundles where
  "noBundles = (\<lambda>l. Map.empty)"


text \<open>The same, after a response for the model \<open>m\<close> whose headers said that none of its
  1000 daily requests remains for the next hour.\<close>

definition exhaustedHeaders :: Headers where
  "exhaustedHeaders = \<lparr>limitReq = Some 1000, remainReq = Some 0, resetReq = Some 3600000,
                        limitTok = None, remainTok = None, resetTok = None\<rparr>"

definition busyWorld :: "string \<Rightarrow> (real \<times> ApiOutcome) list \<Rightarrow> World" where
  "busyWorld m sc =
     \<lparr>tracker = updateFromHeaders 0 m exhaustedHeaders emptyTracker,
      clock = 0, script = sc, calls = []\<rparr>"





text \<open>The calls made between two worlds, and the models they went to.\<close>

definition newCalls :: "World \<Rightarrow> World \<Rightarrow> (string \<times> (JsError + jsstring)) list" where
  "newCalls w w' = drop (length (calls w)) (calls w')"

definition attempted :: "World \<Rightarrow> World \<Rightarrow> string list" where
  "attempted w w' = map fst (newCalls w w')"

text \<open>What \<open>chat\<close> threw or returned, read as the outcome of an attempt: the attempt
  fails with the error thrown, or with the empty-response error on blank content.\<close>

definition failedWith :: "JsError + jsstring \<Rightarrow> JsError \<Rightarrow> bool" where
  "failedWith res e = (case res of Inl e' \<Rightarrow> e' = e | Inr c \<Rightarrow> trim c = [] \<and> e = EmptyResponseError)"

definition unusable :: "JsError + jsstring \<Rightarrow> bool" where
  "unusable res = (case res of Inl e \<Rightarrow> True | Inr c \<Rightarrow> trim c = [])"

section \<open>Properties of the consensus function\<close>

lemma length_filter_eq_count_list: "length (filter (\<lambda>v. v = x) xs) = count_list xs x"
  by (induction xs) auto

lemma filter_neq_removeAll: "filter (\<lambda>v. v \<noteq> x) xs = removeAll x xs"
  by (induction xs) auto

lemma computeDeliberationResult_consensus:
  "computeDeliberationResult d = consensus (verdictsOf d)"
  unfolding computeDeliberationResult_def consensus_def verdictsOf_def Let_def
  by (simp only: length_filter_eq_count_list filter_neq_removeAll)

lemma count_list_removeAll:
  "count_list (removeAll r xs) x = (if x = r then 0 else count_list xs x)"
  by (induction xs) auto

lemma count_list_count_mset: "count_list xs x = count (mset xs) x"
  by (induction xs) auto

lemma consensus_mset:
  assumes "mset vs = mset ws"
  shows "consensus vs = consensus ws"
proof -
  from assms have "\<And>x. count_list vs x = count_list ws x"
    by (simp add: count_list_count_mset)
  then have "\<And>x. count_list (removeAll REFUSE vs) x = count_list (removeAll REFUSE ws) x"
    by (simp add: count_list_removeAll)
  then show ?thesis
    by (simp add: consensus_def Let_def)
qed

lemma verdictsOf_withVerdicts: "verdictsOf (withVerdicts d a b c) = [a, b, c]"
  by (simp add: verdictsOf_def withVerdicts_def)

text \<open>
  Claim C1. On every deliberation, \<open>computeDeliberationResult\<close> is the consensus rule of
  the specification applied to the three verdicts: with the REFUSE votes discarded and
  \<open>a\<close>, \<open>d\<close>, \<open>c\<close> the numbers of APPROVE, DENY and CONDITIONAL votes among the rest, the
  result is approved if \<open>a \<ge> 2\<close>, else denied if \<open>d \<ge> 2\<close>, else conditional if
  \<open>a + c \<ge> 2\<close>, else noConsensus. The five triples of the specification give approved,
  denied, conditional, noConsensus and noConsensus.
\<close>

theorem C1_consensus_rule:
  "computeDeliberationResult d = consensus (verdictsOf d)
   \<and> computeDeliberationResult (withVerdicts d APPROVE APPROVE DENY) = approved
   \<and> computeDeliberationResult (withVerdicts d DENY DENY CONDITIONAL) = denied
   \<and> computeDeliberationResult (withVerdicts d APPROVE CONDITIONAL REFUSE) = conditional
   \<and> computeDeliberationResult (withVerdicts d APPROVE DENY REFUSE) = noConsensus
   \<and> computeDeliberationResult (withVerdicts d REFUSE REFUSE REFUSE) = noConsensus"
proof (intro conjI)
  show "computeDeliberationResult d = consensus (verdictsOf d)"
    by (rule computeDeliberationResult_consensus)
qed (simp_all add: computeDeliberationResult_def withVerdicts_def)

text \<open>
  Claim C7. \<open>computeDeliberationResult\<close> is a function on all deliberations (it is defined
  without recursion and without partiality), and its result depends only on the multiset
  of the three verdicts: two deliberations whose verdicts are permutations of each other
  have the same result, whatever else differs between them.
\<close>

theorem C7_permutation_invariant:
  assumes "mset (verdictsOf d) = mset (verdictsOf d')"
  shows "computeDeliberationResult d = computeDeliberationResult d'"
  using consensus_mset [OF assms] by (simp add: computeDeliberationResult_consensus)

text \<open>Claim C7 at a triple and one of its rotations: both give conditional.\<close>

theorem C7_permutation_invariant_witness:
  "computeDeliberationResult (withVerdicts blankDeliberation APPROVE CONDITIONAL DENY) =
   computeDeliberationResult (withVerdicts blankDeliberation DENY APPROVE CONDITIONAL)
   \<and> computeDeliberationResult (withVerdicts blankDeliberation APPROVE CONDITIONAL DENY) = conditional"
  using C7_permutation_invariant
    [of "withVerdicts blankDeliberation APPROVE CONDITIONAL DENY"
        "withVerdicts blankDeliberation DENY APPROVE CONDITIONAL"]
  by (simp add: verdictsOf_withVerdicts)
    (simp add: computeDeliberationResult_def withVerdicts_def)

section \<open>Properties of the rate-limit tracker\<close>

lemmas model_ids = GPT_OSS_120B_def KIMI_K2_def KIMI_K2_0905_def LLAMA4_SCOUT_def
  LLAMA4_MAVERICK_def LLAMA33_70B_def LLAMA31_8B_def QWEN3_32B_def COMPOUND_def
  COMPOUND_MINI_def DATA_PROCESSING_MODEL_def EMERGENCY_MODEL_def

lemma limits_LLAMA31_8B:
  "MODEL_LIMITS LLAMA31_8B = Some \<lparr>ModelLimit.rpm = 30, ModelLimit.tpd = 500000\<rparr>"
  by (simp add: MODEL_LIMITS_def MODEL_LIMITS_table_def model_ids)

text \<open>
  Claim C3, as stated, fails: with a known limit and a reset time of 0 (what
  \<open>updateFromHeaders\<close> stores when the reset header is absent), the current time is past
  the reset time, yet the usage is not cleared. At time 1000, limit 100, nothing
  remaining and reset time 0, \<open>dimensionUsage\<close> is 100, not 0.
\<close>

theorem C3_reset_zero_counterexample:
  "(0::real) < 100 \<and> (0::real) < 1000 \<and> dimensionUsage 1000 100 0 0 = 100
   \<and> dimensionUsage 1000 100 0 0 \<noteq> 0"
  by (simp add: dimensionUsage_def)

text \<open>
  Claim C3, amended. \<open>dimensionUsage\<close> is -1 when the limit is not positive; otherwise it
  is 0 when the reset time is positive and the current time is past it; otherwise it is
  \<open>(limit - remaining) / limit * 100\<close> clamped to the interval from 0 to 100. So the
  result is always -1 or between 0 and 100. With limit 0 the result is -1, and with
  limit 100 and 100 remaining it is 0 at every reset time.
\<close>

theorem C3_dimensionUsage_amended:
  "dimensionUsage now limit remaining resetAt =
     (if limit \<le> 0 then -1
      else if 0 < resetAt \<and> resetAt < now then 0
      else if (limit - remaining) / limit * 100 < 0 then 0
      else if 100 < (limit - remaining) / limit * 100 then 100
      else (limit - remaining) / limit * 100)
   \<and> (dimensionUsage now limit remaining resetAt = -1
        \<or> (0 \<le> dimensionUsage now limit remaining resetAt
            \<and> dimensionUsage now limit remaining resetAt \<le> 100))
   \<and> dimensionUsage now 0 remaining resetAt = -1
   \<and> dimensionUsage now 100 100 resetAt = 0"
proof (intro conjI)
  show "dimensionUsage now limit remaining resetAt =
     (if limit \<le> 0 then -1
      else if 0 < resetAt \<and> resetAt < now then 0
      else if (limit - remaining) / limit * 100 < 0 then 0
      else if 100 < (limit - remaining) / limit * 100 then 100
      else (limit - remaining) / limit * 100)"
    by (simp add: dimensionUsage_def max_def min_def)
  show "dimensionUsage now limit remaining resetAt = -1
        \<or> (0 \<le> dimensionUsage now limit remaining resetAt
            \<and> dimensionUsage now limit remaining resetAt \<le> 100)"
    by (simp add: dimensionUsage_def)
  show "dimensionUsage now 0 remaining resetAt = -1"
    by (simp add: dimensionUsage_def)
  show "dimensionUsage now 100 100 resetAt = 0"
    by (simp add: dimensionUsage_def)
qed

text \<open>
  Claim C4. In every tracker state and at every time, \<open>shouldSkipModel\<close> answers true
  exactly when one of the four dimensions of \<open>getLoadInfo\<close> is at least 95. When all four
  are -1 the model is not skipped, and they are all -1 for a model that has no snapshot,
  no request window and no token accumulator.
\<close>

theorem C4_shouldSkipModel_iff:
  "fst (shouldSkipModel now m st) =
     (tpm (fst (getLoadInfo now m st)) \<ge> 95 \<or> LoadInfo.rpm (fst (getLoadInfo now m st)) \<ge> 95 \<or>
      rpd (fst (getLoadInfo now m st)) \<ge> 95 \<or> LoadInfo.tpd (fst (getLoadInfo now m st)) \<ge> 95)
   \<and> (fst (getLoadInfo now m st) = \<lparr>tpm = -1, rpm = -1, rpd = -1, tpd = -1\<rparr>
        \<longrightarrow> \<not> fst (shouldSkipModel now m st))
   \<and> (store st m = None \<and> rpmWindows st m = None \<and> tpdWindows st m = None
        \<longrightarrow> fst (getLoadInfo now m st) = \<lparr>tpm = -1, rpm = -1, rpd = -1, tpd = -1\<rparr>)"
proof (intro conjI impI)
  show skip: "fst (shouldSkipModel now m st) =
     (tpm (fst (getLoadInfo now m st)) \<ge> 95 \<or> LoadInfo.rpm (fst (getLoadInfo now m st)) \<ge> 95 \<or>
      rpd (fst (getLoadInfo now m st)) \<ge> 95 \<or> LoadInfo.tpd (fst (getLoadInfo now m st)) \<ge> 95)"
    by (simp add: shouldSkipModel_def SKIP_THRESHOLD_def split_def Let_def)
  show "\<not> fst (shouldSkipModel now m st)"
    if "fst (getLoadInfo now m st) = \<lparr>tpm = -1, rpm = -1, rpd = -1, tpd = -1\<rparr>"
    using that by (simp add: skip)
  show "fst (getLoadInfo now m st) = \<lparr>tpm = -1, rpm = -1, rpd = -1, tpd = -1\<rparr>"
    if "store st m = None \<and> rpmWindows st m = None \<and> tpdWindows st m = None"
    using that
    by (simp add: getLoadInfo_def rpmUsagePercent_def tpdUsagePercent_def split: option.splits)
qed

text \<open>Claim C4 at the empty tracker: the emergency model has no data and is not
  skipped.\<close>

theorem C4_shouldSkipModel_iff_witness:
  "fst (getLoadInfo 0 LLAMA31_8B emptyTracker) = \<lparr>tpm = -1, rpm = -1, rpd = -1, tpd = -1\<rparr>
   \<and> \<not> fst (shouldSkipModel 0 LLAMA31_8B emptyTracker)"
  using C4_shouldSkipModel_iff [of 0 LLAMA31_8B emptyTracker]
  by (simp add: emptyTracker_def)

text \<open>
  Claim C5 fails on the code. The RPM dimension is the number of requests of the last 60
  seconds divided by the limit, with no upper clamp, although the comment of
  \<open>getLoadInfo\<close> promises 0 to 100 or -1 and the three other dimensions are clamped.
  After 31 requests to the emergency model (limit 30 per minute) at time 1000, a state
  reached by \<open>recordModelRequest\<close> alone, \<open>getLoadInfo\<close> reports an RPM of 310/3, above
  100.
\<close>

theorem C5_rpm_above_100:
  "LoadInfo.rpm (fst (getLoadInfo 1000 LLAMA31_8B
       (recordRequests (replicate 31 1000) LLAMA31_8B emptyTracker))) = 310 / 3
   \<and> (100::real) < 310 / 3"
  by (simp add: getLoadInfo_def rpmUsagePercent_def tpdUsagePercent_def limits_LLAMA31_8B
      recordModelRequest_def emptyTracker_def RPM_WINDOW_MS_def eval_nat_numeral Let_def)

lemma recordModelRequest_window:
  "\<exists>ws. rpmWindows (recordModelRequest t m st) m = Some ws \<and>
        set ws \<subseteq> insert t (case rpmWindows st m of None \<Rightarrow> {} | Some w0 \<Rightarrow> set w0)"
  by (auto simp: recordModelRequest_def Let_def split: option.splits)

lemma recordRequests_window:
  "ts \<noteq> [] \<Longrightarrow>
   \<exists>ws. rpmWindows (recordRequests ts m st) m = Some ws \<and>
        set ws \<subseteq> set ts \<union> (case rpmWindows st m of None \<Rightarrow> {} | Some w0 \<Rightarrow> set w0)"
proof (induction ts arbitrary: st)
  case Nil
  then show ?case by simp
next
  case (Cons t ts)
  obtain w1 where w1: "rpmWindows (recordModelRequest t m st) m = Some w1"
     "set w1 \<subseteq> insert t (case rpmWindows st m of None \<Rightarrow> {} | Some w0 \<Rightarrow> set w0)"
    using recordModelRequest_window by blast
  show ?case
  proof (cases "ts = []")
    case True
    with w1 show ?thesis by auto
  next
    case False
    from Cons.IH [OF False, of "recordModelRequest t m st"]
    obtain ws where "rpmWindows (recordRequests ts m (recordModelRequest t m st)) m = Some ws"
      "set ws \<subseteq> set ts \<union> set w1" using w1 by auto
    with w1 show ?thesis by auto
  qed
qed

text \<open>
  Claim C8. Let a model have an entry in \<open>MODEL_LIMITS\<close>, let one or more requests be
  recorded for it, and let the load be read when every time stamp, those recorded and
  those that were in the window before, is 60 seconds old or older. Then the RPM
  dimension of \<open>getLoadInfo\<close> is 0: not the usage before the pause, and not -1.
\<close>

theorem C8_rpm_cleared_after_window:
  assumes known: "MODEL_LIMITS m = Some limits"
    and some: "ts \<noteq> []"
    and recorded: "\<forall>t \<in> set ts. t + RPM_WINDOW_MS \<le> now"
    and before: "\<forall>t \<in> (case rpmWindows st m of None \<Rightarrow> {} | Some w0 \<Rightarrow> set w0).
                   t + RPM_WINDOW_MS \<le> now"
  shows "LoadInfo.rpm (fst (getLoadInfo now m (recordRequests ts m st))) = 0"
proof -
  obtain ws where ws: "rpmWindows (recordRequests ts m st) m = Some ws"
    "set ws \<subseteq> set ts \<union> (case rpmWindows st m of None \<Rightarrow> {} | Some w0 \<Rightarrow> set w0)"
    using recordRequests_window [OF some] by blast
  have "\<forall>t \<in> set ws. \<not> t > now - RPM_WINDOW_MS"
    using ws(2) recorded before by fastforce
  then have "filter (\<lambda>t. t > now - RPM_WINDOW_MS) ws = []"
    by (simp add: filter_empty_conv)
  then show ?thesis
    using known ws(1)
    by (simp add: getLoadInfo_def rpmUsagePercent_def Let_def split: option.splits)
qed

text \<open>Claim C8 for three requests to the emergency model at seconds 1, 2 and 3: read
  at second 70 the RPM dimension is 0, while read at second 3 it is 10.\<close>

theorem C8_rpm_cleared_after_window_witness:
  "LoadInfo.rpm (fst (getLoadInfo 70000 LLAMA31_8B
        (recordRequests [1000, 2000, 3000] LLAMA31_8B emptyTracker))) = 0
   \<and> LoadInfo.rpm (fst (getLoadInfo 3000 LLAMA31_8B
        (recordRequests [1000, 2000, 3000] LLAMA31_8B emptyTracker))) = 10"
  using C8_rpm_cleared_after_window
    [of LLAMA31_8B "\<lparr>ModelLimit.rpm = 30, ModelLimit.tpd = 500000\<rparr>"
        "[1000, 2000, 3000]" 70000 emptyTracker]
  by (simp add: limits_LLAMA31_8B RPM_WINDOW_MS_def emptyTracker_def)
    (simp add: getLoadInfo_def rpmUsagePercent_def tpdUsagePercent_def limits_LLAMA31_8B
      recordModelRequest_def emptyTracker_def RPM_WINDOW_MS_def Let_def)

section \<open>Properties of the client and of one attempt\<close>

text \<open>Every call is appended to the list of calls, with the model and the outcome; the
  helpers \<open>condense\<close> and \<open>purifyLanguage\<close> make exactly one call.\<close>

lemma chat_calls:
  "calls (snd (chat m w)) = calls w @ [(m, fst (chat m w))]"
  by (auto simp: chat_def Let_def split: list.splits prod.splits ApiOutcome.splits
      option.splits if_splits)

lemma condense_chat:
  "snd (condense m target w) = snd (chat m w)
   \<and> (fst (condense m target w) = None) = unusable (fst (chat m w))"
  by (auto simp: condense_def unusable_def Let_def split: prod.splits sum.splits)

lemma purifyLanguage_snd: "snd (purifyLanguage m w) = snd (chat m w)"
  by (auto simp: purifyLanguage_def Let_def split: prod.splits sum.splits)

lemma purifyLanguage_Some:
  "fst (purifyLanguage m w) = Some p \<Longrightarrow> \<exists>c. fst (chat m w) = Inr c \<and> p = trim c"
  by (auto simp: purifyLanguage_def Let_def split: prod.splits sum.splits if_splits)

lemma purifyStep_cases:
  assumes "purifyStep m lang f0 w1 = (final1, w2)"
  shows "(w2 = w1 \<and> final1 = f0) \<or>
         (w2 = snd (chat m w1) \<and>
            (final1 = f0 \<or> (\<exists>c'. fst (chat m w1) = Inr c' \<and> final1 = trim c')))"
proof (cases "hasLanguageMixing f0 lang")
  case False
  with assms show ?thesis by (simp add: purifyStep_def)
next
  case True
  obtain p w' where pw: "purifyLanguage m w1 = (p, w')" by (cases "purifyLanguage m w1")
  then have w': "w' = snd (chat m w1)" using purifyLanguage_snd [of m w1] by simp
  show ?thesis
  proof (cases p)
    case None
    with True pw assms w' show ?thesis by (simp add: purifyStep_def)
  next
    case (Some q)
    with pw have "fst (purifyLanguage m w1) = Some q" by simp
    from purifyLanguage_Some [OF this] Some True pw assms w' show ?thesis
      by (auto simp: purifyStep_def)
  qed
qed

lemma capStep_cases:
  assumes "capStep b config lang start m final1 w2 = (r, w3)"
  shows "PersonaResponse.model r = m \<and>
         ((w3 = w2 \<and> error r = None) \<or>
          (w3 = snd (chat m w2) \<and> CHAR_LIMIT < length final1 \<and>
             (error r = None \<or>
              (error r = Some CondenseFailedText \<and>
               content r = tMessage b lang ''outputOverflow'' \<and>
               unusable (fst (chat m w2))))))"
proof (cases "length final1 > CHAR_LIMIT")
  case False
  with assms show ?thesis by (auto simp: capStep_def)
next
  case True
  obtain cr w' where cw: "condense m ResponseTarget w2 = (cr, w')"
    by (cases "condense m ResponseTarget w2")
  with condense_chat [of m ResponseTarget w2]
  have w': "w' = snd (chat m w2)" and un: "(cr = None) = unusable (fst (chat m w2))"
    by simp_all
  show ?thesis
  proof (cases cr)
    case None
    with True cw assms w' un show ?thesis by (auto simp: capStep_def)
  next
    case (Some q)
    with True cw assms w' show ?thesis by (auto simp: capStep_def)
  qed
qed

lemma newCalls_append: "calls w' = calls w @ xs \<Longrightarrow> newCalls w w' = xs"
  by (simp add: newCalls_def)

lemma trim_Nil: "trim [] = []"
  by (simp add: trim_def)

lemma personaAttempt_Inl:
  assumes "personaAttempt b cfg lang start m w = (Inl e, w')"
  shows "calls w' = calls w @ [(m, fst (chat m w))] \<and> failedWith (fst (chat m w)) e"
proof -
  obtain r0 w1 where c1: "chat m w = (r0, w1)" by (cases "chat m w")
  with chat_calls [of m w] have k1: "calls w1 = calls w @ [(m, r0)]" by simp
  show ?thesis
  proof (cases r0)
    case (Inl err)
    with assms c1 k1 show ?thesis by (simp add: personaAttempt_def failedWith_def)
  next
    case (Inr c)
    with assms c1 have "trim c = []" and "e = EmptyResponseError" and "w' = w1"
      by (auto simp: personaAttempt_def trim_Nil split_def Let_def split: if_splits)
    with Inr c1 k1 show ?thesis by (simp add: failedWith_def)
  qed
qed

lemma personaAttempt_Inr:
  assumes "personaAttempt b cfg lang start m w = (Inr r, w')"
  shows "PersonaResponse.model r = m
     \<and> (\<exists>c more. calls w' = calls w @ (m, Inr c) # more \<and> trim c \<noteq> [] \<and> fst ` set more \<subseteq> {m})
     \<and> (error r = None \<or>
        (error r = Some CondenseFailedText \<and>
         content r = tMessage b lang ''outputOverflow'' \<and>
         (\<exists>ans. (m, Inr ans) \<in> set (newCalls w w') \<and> CHAR_LIMIT < length (trim ans)) \<and>
         fst (last (calls w')) = m \<and> unusable (snd (last (calls w')))))"
proof -
  obtain r0 w1 where c1: "chat m w = (r0, w1)" by (cases "chat m w")
  with chat_calls [of m w] have k1: "calls w1 = calls w @ [(m, r0)]" by simp
  from assms c1 obtain c where r0: "r0 = Inr c"
    by (cases r0) (auto simp: personaAttempt_def)
  from assms c1 r0 have nb: "trim c \<noteq> []"
    by (auto simp: personaAttempt_def split: if_splits)
  then have nb': "\<not> (c = [] \<or> length (trim c) = 0)"
    by (auto simp: trim_Nil)
  obtain final1 w2 where p: "purifyStep m lang (trim c) w1 = (final1, w2)"
    by (cases "purifyStep m lang (trim c) w1")
  obtain r' w3 where cs: "capStep b cfg lang start m final1 w2 = (r', w3)"
    by (cases "capStep b cfg lang start m final1 w2")
  from assms c1 r0 nb' p cs have res: "r = r'" "w' = w3"
    by (simp_all add: personaAttempt_def)
  note P = purifyStep_cases [OF p]
  note C = capStep_cases [OF cs]
  have k2: "calls w2 = calls w1 \<or> calls w2 = calls w1 @ [(m, fst (chat m w1))]"
    using P chat_calls [of m w1] by auto
  have k3: "calls w3 = calls w2 \<or> calls w3 = calls w2 @ [(m, fst (chat m w2))]"
    using C chat_calls [of m w2] by auto
  have fin: "final1 = trim c \<or> (\<exists>c'. (m, Inr c') \<in> set (calls w2) \<and> final1 = trim c'
               \<and> calls w2 = calls w1 @ [(m, Inr c')])"
    using P chat_calls [of m w1] by auto
  have m: "PersonaResponse.model r = m" using C res by simp
  have shape: "\<exists>c more. calls w' = calls w @ (m, Inr c) # more \<and> trim c \<noteq> [] \<and> fst ` set more \<subseteq> {m}"
    using k1 k2 k3 r0 nb res by auto
  have err: "error r = None \<or>
        (error r = Some CondenseFailedText \<and>
         content r = tMessage b lang ''outputOverflow'' \<and>
         (\<exists>ans. (m, Inr ans) \<in> set (newCalls w w') \<and> CHAR_LIMIT < length (trim ans)) \<and>
         fst (last (calls w')) = m \<and> unusable (snd (last (calls w'))))"
  proof (cases "error r = None")
    case True
    then show ?thesis by simp
  next
    case False
    with C res have c3: "w3 = snd (chat m w2)" "CHAR_LIMIT < length final1"
      "error r = Some CondenseFailedText" "content r = tMessage b lang ''outputOverflow''"
      "unusable (fst (chat m w2))"
      by auto
    have k3': "calls w' = calls w2 @ [(m, fst (chat m w2))]"
      using c3(1) res chat_calls [of m w2] by simp
    have "\<exists>ans. (m, Inr ans) \<in> set (newCalls w w') \<and> CHAR_LIMIT < length (trim ans)"
    proof -
      from fin show ?thesis
      proof
        assume "final1 = trim c"
        moreover have "(m, Inr c) \<in> set (newCalls w w')"
          using k1 k2 k3' r0 by (auto simp: newCalls_def)
        ultimately show ?thesis using c3(2) by blast
      next
        assume "\<exists>c'. (m, Inr c') \<in> set (calls w2) \<and> final1 = trim c'
               \<and> calls w2 = calls w1 @ [(m, Inr c')]"
        then obtain c' where c': "final1 = trim c'" "calls w2 = calls w1 @ [(m, Inr c')]"
          by blast
        have "(m, Inr c') \<in> set (newCalls w w')"
          using k1 c'(2) k3' by (auto simp: newCalls_def)
        with c'(1) c3(2) show ?thesis by blast
      qed
    qed
    with c3 k3' show ?thesis by simp
  qed
  from m shape err show ?thesis by blast
qed

section \<open>Properties of the persona chain\<close>

lemma queryPersonaLoop_skip:
  assumes "rest \<noteq> [] \<and> fst (shouldSkipModel (clock w) m (tracker w))"
  shows "queryPersonaLoop b cfg lang start (m # rest) w =
         queryPersonaLoop b cfg lang start rest
           (w\<lparr>tracker := snd (shouldSkipModel (clock w) m (tracker w))\<rparr>)"
  using assms by simp

lemma queryPersonaLoop_attempt:
  assumes "\<not> (rest \<noteq> [] \<and> fst (shouldSkipModel (clock w) m (tracker w)))"
    and "personaAttempt b cfg lang start m
           (if rest \<noteq> [] then w\<lparr>tracker := snd (shouldSkipModel (clock w) m (tracker w))\<rparr>
            else w) = (res, w1)"
  shows "queryPersonaLoop b cfg lang start (m # rest) w =
         (case res of
            Inr r \<Rightarrow> (r, w1)
          | Inl err \<Rightarrow>
              if rest \<noteq> [] then queryPersonaLoop b cfg lang start rest w1
              else (\<lparr>persona = name cfg,
                     content = tMessage b lang ''coreMalfunction'',
                     verdict = REFUSE,
                     model = m,
                     latencyMs = clock w1 - start,
                     error = Some (MessageOf err)\<rparr>, w1))"
proof -
  have "queryPersonaLoop b cfg lang start (m # rest) w =
        (case (res, w1) of
           (Inr r, w1) \<Rightarrow> (r, w1)
         | (Inl err, w1) \<Rightarrow>
             if rest \<noteq> [] then queryPersonaLoop b cfg lang start rest w1
             else (\<lparr>persona = name cfg,
                    content = tMessage b lang ''coreMalfunction'',
                    verdict = REFUSE,
                    model = m,
                    latencyMs = clock w1 - start,
                    error = Some (MessageOf err)\<rparr>, w1))"
    unfolding assms(2) [symmetric]
    by (subst queryPersonaLoop.simps) (simp only: assms(1) if_False Let_def)
  then show ?thesis by (simp split: sum.splits)
qed

text \<open>A run of the chain ends in one attempt: either an attempt that returned the
  response, or the attempt on the last model, which threw.\<close>

lemma queryPersonaLoop_final:
  assumes "ms \<noteq> []" and "queryPersonaLoop b cfg lang start ms w = (r, w')"
  shows "\<exists>m w0 pre. calls w0 = calls w @ pre \<and> fst ` set pre \<subseteq> set ms \<and> m \<in> set ms \<and>
           (personaAttempt b cfg lang start m w0 = (Inr r, w') \<or>
            (m = last ms \<and>
             (\<exists>e. personaAttempt b cfg lang start m w0 = (Inl e, w') \<and>
                  error r = Some (MessageOf e) \<and> PersonaResponse.model r = m)))"
  using assms
proof (induction ms arbitrary: w)
  case Nil
  then show ?case by simp
next
  case (Cons m rest)
  let ?wp = "w\<lparr>tracker := snd (shouldSkipModel (clock w) m (tracker w))\<rparr>"
  show ?case
  proof (cases "rest \<noteq> [] \<and> fst (shouldSkipModel (clock w) m (tracker w))")
    case True
    then have rest: "rest \<noteq> []" by simp
    from queryPersonaLoop_skip [OF True] Cons.prems(2)
    have run: "queryPersonaLoop b cfg lang start rest ?wp = (r, w')"
      by (simp del: queryPersonaLoop.simps)
    from Cons.IH [OF rest run] obtain m' w0 pre where
      IH: "calls w0 = calls ?wp @ pre" "fst ` set pre \<subseteq> set rest" "m' \<in> set rest"
        "personaAttempt b cfg lang start m' w0 = (Inr r, w') \<or>
            (m' = last rest \<and>
             (\<exists>e. personaAttempt b cfg lang start m' w0 = (Inl e, w') \<and>
                  error r = Some (MessageOf e) \<and> PersonaResponse.model r = m'))"
      by blast
    have a: "calls w0 = calls w @ pre" using IH(1) by simp
    have b: "fst ` set pre \<subseteq> set (m # rest)" using IH(2) by auto
    have c: "m' \<in> set (m # rest)" using IH(3) by simp
    have d: "last (m # rest) = last rest" using rest by simp
    show ?thesis
      apply (rule exI [of _ m'], rule exI [of _ w0], rule exI [of _ pre])
      using a b c d IH(4) by (simp del: queryPersonaLoop.simps)
  next
    case False
    define w0 where "w0 = (if rest \<noteq> [] then ?wp else w)"
    have same: "calls w0 = calls w" by (simp add: w0_def)
    obtain res w1 where pa: "personaAttempt b cfg lang start m w0 = (res, w1)"
      by (cases "personaAttempt b cfg lang start m w0")
    note unf = queryPersonaLoop_attempt [OF False pa [unfolded w0_def]]
    show ?thesis
    proof (cases res)
      case (Inr r')
      with unf Cons.prems(2) have eq: "r' = r" "w1 = w'"
        by (simp_all del: queryPersonaLoop.simps)
      with pa Inr have "personaAttempt b cfg lang start m w0 = (Inr r, w')" by simp
      with same show ?thesis
        apply -
        apply (rule exI [of _ m], rule exI [of _ w0], rule exI [of _ "[]"])
        by (simp del: queryPersonaLoop.simps)
    next
      case (Inl err)
      from personaAttempt_Inl [OF pa [unfolded Inl]] same
      have k1: "calls w1 = calls w @ [(m, fst (chat m w0))]" by simp
      show ?thesis
      proof (cases "rest = []")
        case True
        with unf Inl Cons.prems(2)
        have eq: "w1 = w'" "error r = Some (MessageOf err)" "PersonaResponse.model r = m"
          by (auto simp del: queryPersonaLoop.simps)
        with pa Inl have "personaAttempt b cfg lang start m w0 = (Inl err, w')" by simp
        with same eq True show ?thesis
          apply -
          apply (rule exI [of _ m], rule exI [of _ w0], rule exI [of _ "[]"])
          by (simp del: queryPersonaLoop.simps)
      next
        case rest: False
        with unf Inl Cons.prems(2)
        have run: "queryPersonaLoop b cfg lang start rest w1 = (r, w')"
          by (simp del: queryPersonaLoop.simps)
        from Cons.IH [OF rest run] obtain m' w0' pre where
          IH: "calls w0' = calls w1 @ pre" "fst ` set pre \<subseteq> set rest" "m' \<in> set rest"
            "personaAttempt b cfg lang start m' w0' = (Inr r, w') \<or>
              (m' = last rest \<and>
               (\<exists>e. personaAttempt b cfg lang start m' w0' = (Inl e, w') \<and>
                    error r = Some (MessageOf e) \<and> PersonaResponse.model r = m'))"
          by blast
        have a: "calls w0' = calls w @ ((m, fst (chat m w0)) # pre)" using IH(1) k1 by simp
        have b: "fst ` set ((m, fst (chat m w0)) # pre) \<subseteq> set (m # rest)" using IH(2) by auto
        have c: "m' \<in> set (m # rest)" using IH(3) by simp
        have d: "last (m # rest) = last rest" using rest by simp
        show ?thesis
          apply (rule exI [of _ m'], rule exI [of _ w0'],
                 rule exI [of _ "(m, fst (chat m w0)) # pre"])
          using a b c d IH(4) by (simp del: queryPersonaLoop.simps)
      qed
    qed
  qed
qed






section \<open>Properties of the data and search chains\<close>

lemma shortenCondition_calls:
  "\<exists>xs. calls (snd (shortenCondition m raw w)) = calls w @ xs"
proof (cases "length raw > CONDITION_LIMIT")
  case False
  then show ?thesis by (simp add: shortenCondition_def)
next
  case True
  have "snd (shortenCondition m raw w) = snd (chat m w)"
    using True condense_chat [of m ConditionTarget w]
    by (cases "condense m ConditionTarget w") (auto simp: shortenCondition_def split: option.splits)
  with chat_calls [of m w] show ?thesis by simp
qed

lemma extractConditionLoop_step:
  "snd (extractConditionLoop lang (m # rest) w) = snd (chat m w)
   \<or> (rest \<noteq> [] \<and> snd (extractConditionLoop lang (m # rest) w)
                     = snd (extractConditionLoop lang rest (snd (chat m w))))
   \<or> (\<exists>raw. snd (extractConditionLoop lang (m # rest) w)
                     = snd (shortenCondition m raw (snd (chat m w))))"
  by (cases "chat m w")
    (auto simp: Let_def split_def split: sum.splits option.splits)

lemma extractConditionLoop_calls:
  "\<exists>xs. calls (snd (extractConditionLoop lang ms w)) = calls w @ xs"
proof (induction ms arbitrary: w)
  case Nil
  then show ?case by simp
next
  case (Cons m rest)
  from Cons.IH [of "snd (chat m w)"] shortenCondition_calls [of m _ "snd (chat m w)"]
    chat_calls [of m w] extractConditionLoop_step [of lang m rest w]
  show ?case by (metis append.assoc)
qed

lemma extractConditionLoop_first:
  "\<exists>ms. attempted w (snd (extractConditionLoop lang (m # rest) w)) = m # ms"
proof -
  have "\<exists>xs. calls (snd (extractConditionLoop lang (m # rest) w)) = calls (snd (chat m w)) @ xs"
    using extractConditionLoop_calls [of lang rest "snd (chat m w)"]
      shortenCondition_calls [of m _ "snd (chat m w)"]
      extractConditionLoop_step [of lang m rest w]
    by (metis append_Nil2)
  then show ?thesis
    by (auto simp: chat_calls attempted_def newCalls_def)
qed

lemma fetchSearchContextLoop_step:
  "snd (fetchSearchContextLoop (m # rest) w) = snd (chat m w)
   \<or> (rest \<noteq> [] \<and> snd (fetchSearchContextLoop (m # rest) w)
                     = snd (fetchSearchContextLoop rest (snd (chat m w))))"
  by (cases "chat m w") (auto split: sum.splits)

lemma fetchSearchContextLoop_calls:
  "\<exists>xs. calls (snd (fetchSearchContextLoop ms w)) = calls w @ xs"
proof (induction ms arbitrary: w)
  case Nil
  then show ?case by simp
next
  case (Cons m rest)
  from Cons.IH [of "snd (chat m w)"] chat_calls [of m w] fetchSearchContextLoop_step [of m rest w]
  show ?case by (metis append.assoc)
qed

lemma fetchSearchContextLoop_first:
  "\<exists>ms. attempted w (snd (fetchSearchContextLoop (m # rest) w)) = m # ms"
proof -
  have "\<exists>xs. calls (snd (fetchSearchContextLoop (m # rest) w)) = calls (snd (chat m w)) @ xs"
    using fetchSearchContextLoop_calls [of rest "snd (chat m w)"]
      fetchSearchContextLoop_step [of m rest w]
    by (metis append_Nil2)
  then show ?thesis
    by (auto simp: chat_calls attempted_def newCalls_def)
qed

lemma queryPersonaLoop_calls:
  assumes "ms \<noteq> []" and run: "queryPersonaLoop b cfg lang start ms w = (r, w')"
  shows "\<exists>new. calls w' = calls w @ new \<and> new \<noteq> [] \<and> fst ` set new \<subseteq> set ms"
proof -
  from queryPersonaLoop_final [OF assms] obtain m w0 pre where
    F: "calls w0 = calls w @ pre" "fst ` set pre \<subseteq> set ms" "m \<in> set ms"
     "personaAttempt b cfg lang start m w0 = (Inr r, w') \<or>
        (m = last ms \<and>
         (\<exists>e. personaAttempt b cfg lang start m w0 = (Inl e, w') \<and>
              error r = Some (MessageOf e) \<and> PersonaResponse.model r = m))"
    by blast
  from F(4) show ?thesis
  proof
    assume pa: "personaAttempt b cfg lang start m w0 = (Inr r, w')"
    from personaAttempt_Inr [OF pa] obtain c more where
      "calls w' = calls w0 @ (m, Inr c) # more" "fst ` set more \<subseteq> {m}" by blast
    with F(1,2,3) have "calls w' = calls w @ (pre @ (m, Inr c) # more)
        \<and> pre @ (m, Inr c) # more \<noteq> [] \<and> fst ` set (pre @ (m, Inr c) # more) \<subseteq> set ms"
      by auto
    then show ?thesis by blast
  next
    assume "m = last ms \<and>
         (\<exists>e. personaAttempt b cfg lang start m w0 = (Inl e, w') \<and>
              error r = Some (MessageOf e) \<and> PersonaResponse.model r = m)"
    then obtain e where pa: "personaAttempt b cfg lang start m w0 = (Inl e, w')" by blast
    from personaAttempt_Inl [OF pa] F(1,2,3)
    have "calls w' = calls w @ (pre @ [(m, fst (chat m w0))])
        \<and> pre @ [(m, fst (chat m w0))] \<noteq> [] \<and> fst ` set (pre @ [(m, fst (chat m w0))]) \<subseteq> set ms"
      by auto
    then show ?thesis by blast
  qed
qed

lemma queryPersonaLoop_attempted:
  assumes "ms \<noteq> []"
  shows "attempted w (snd (queryPersonaLoop b cfg lang start ms w)) \<noteq> []
       \<and> set (attempted w (snd (queryPersonaLoop b cfg lang start ms w))) \<subseteq> set ms"
proof -
  obtain r w' where run: "queryPersonaLoop b cfg lang start ms w = (r, w')"
    by (cases "queryPersonaLoop b cfg lang start ms w")
  from queryPersonaLoop_calls [OF assms run] obtain new where
    "calls w' = calls w @ new" "new \<noteq> []" "fst ` set new \<subseteq> set ms" by blast
  then have "attempted w w' = map fst new" "map fst new \<noteq> []" "set (map fst new) \<subseteq> set ms"
    by (simp_all add: attempted_def newCalls_def)
  with run show ?thesis by simp
qed




lemma detectedLang_Fixed:
  "detectedLang (fst (extractConditionLoop (Fixed l) ms w)) = None"
proof (induction ms arbitrary: w)
  case Nil
  then show ?case by simp
next
  case (Cons m rest)
  then show ?case
    by (auto simp: Let_def split_def split: prod.splits sum.splits option.splits)
qed



section \<open>Runs of the engine on the example worlds\<close>





lemma shouldSkip_untracked:
  "store st m = None \<Longrightarrow> rpmWindows st m = None \<Longrightarrow> tpdWindows st m = None \<Longrightarrow>
   shouldSkipModel now m st = (False, st)"
  by (simp add: shouldSkipModel_def getLoadInfo_def rpmUsagePercent_def tpdUsagePercent_def
      SKIP_THRESHOLD_def split: option.splits)

lemma chat_down:
  "script w = [] \<Longrightarrow>
   chat m w = (Inl FetchFailure,
               w\<lparr>tracker := recordModelRequest (clock w) m (tracker w),
                 calls := calls w @ [(m, Inl FetchFailure)]\<rparr>)"
  by (simp add: chat_def Let_def)

lemma personaAttempt_down:
  "script w = [] \<Longrightarrow>
   personaAttempt b cfg lang start m w =
     (Inl FetchFailure,
      w\<lparr>tracker := recordModelRequest (clock w) m (tracker w),
        calls := calls w @ [(m, Inl FetchFailure)]\<rparr>)"
  by (simp add: personaAttempt_def chat_down)


lemma busy_skip: "fst (shouldSkipModel 0 m (updateFromHeaders 0 m exhaustedHeaders emptyTracker))"
  by (simp add: shouldSkipModel_def getLoadInfo_def split_def Let_def updateFromHeaders_def
      exhaustedHeaders_def emptyTracker_def dimensionUsage_def orZero_def SKIP_THRESHOLD_def)

lemma busy_extract_run:
  "attempted (busyWorld LLAMA4_SCOUT [(500, Response 200 noHeaders (Some (js ''CONDITION: okay'', 40)))])
     (snd (extractCondition (Fixed En)
        (busyWorld LLAMA4_SCOUT [(500, Response 200 noHeaders (Some (js ''CONDITION: okay'', 40)))])))
   = [LLAMA4_SCOUT]
   \<and> condition (fst (extractCondition (Fixed En)
        (busyWorld LLAMA4_SCOUT [(500, Response 200 noHeaders (Some (js ''CONDITION: okay'', 40)))])))
   = Some (js ''okay'')"
  by (simp add: extractCondition_def DATA_MODELS_def DATA_PROCESSING_MODEL_def busyWorld_def
     chat_def Let_def attempted_def newCalls_def
     stripThinkBlocks_def thinkMatch_def startsWith_def js_def trim_def isWhiteSpace_def
     matchSpacesThenDots_def isLineTerminator_def shortenCondition_def CONDITION_LIMIT_def)

lemma busy_search_run:
  "attempted (busyWorld COMPOUND [(500, Response 200 noHeaders (Some (js ''NONE'', 40)))])
     (snd (fetchSearchContext
        (busyWorld COMPOUND [(500, Response 200 noHeaders (Some (js ''NONE'', 40)))])))
   = [COMPOUND]"
  by (simp add: fetchSearchContext_def SEARCH_MODELS_def busyWorld_def
     chat_def Let_def attempted_def newCalls_def
     stripThinkBlocks_def thinkMatch_def startsWith_def js_def trim_def isWhiteSpace_def)

















lemma busy_run:
  "attempted (busyWorld QWEN3_32B [])
     (snd (queryPersona noBundles (getPersonaConfigs En MELCHIOR_1) En (busyWorld QWEN3_32B [])))
   = [LLAMA4_MAVERICK, LLAMA31_8B]"
proof -
  let ?busy = "updateFromHeaders 0 QWEN3_32B exhaustedHeaders emptyTracker"
  have ch: "chainOf (getPersonaConfigs En MELCHIOR_1) = [QWEN3_32B, LLAMA4_MAVERICK, LLAMA31_8B]"
    by (simp add: chainOf_def getPersonaConfigs_def EMERGENCY_MODEL_def)
  have sk1: "shouldSkipModel 0 QWEN3_32B ?busy = (True, ?busy)"
    by (simp add: shouldSkipModel_def getLoadInfo_def rpmUsagePercent_def split_def Let_def
        updateFromHeaders_def exhaustedHeaders_def emptyTracker_def dimensionUsage_def
        orZero_def SKIP_THRESHOLD_def split: option.splits)
  have sk2: "shouldSkipModel 0 LLAMA4_MAVERICK ?busy = (False, ?busy)"
    by (rule shouldSkip_untracked)
      (simp_all add: updateFromHeaders_def exhaustedHeaders_def emptyTracker_def model_ids)
  show ?thesis
    apply (simp only: queryPersona_def ch)
    apply (simp add: busyWorld_def sk1 sk2 personaAttempt_down attempted_def newCalls_def)
    done
qed

section \<open>The fallback chains and the skip policy\<close>

text \<open>
  Claim C2, as stated, fails for condition extraction and for search-context fetching:
  their loops never consult \<open>shouldSkipModel\<close>. In a world where the tracker says that the
  first data model is to be skipped (its daily requests are used up), \<open>extractCondition\<close>
  still calls that model, which is not the last of its list; likewise
  \<open>fetchSearchContext\<close> calls the first search model although it is to be skipped.
\<close>

theorem C2_data_chain_counterexample:
  "DATA_MODELS = [LLAMA4_SCOUT, LLAMA31_8B]
   \<and> fst (shouldSkipModel
            (clock (busyWorld LLAMA4_SCOUT [(500, Response 200 noHeaders (Some (js ''CONDITION: okay'', 40)))]))
            LLAMA4_SCOUT
            (tracker (busyWorld LLAMA4_SCOUT [(500, Response 200 noHeaders (Some (js ''CONDITION: okay'', 40)))])))
   \<and> attempted (busyWorld LLAMA4_SCOUT [(500, Response 200 noHeaders (Some (js ''CONDITION: okay'', 40)))])
        (snd (extractCondition (Fixed En)
           (busyWorld LLAMA4_SCOUT [(500, Response 200 noHeaders (Some (js ''CONDITION: okay'', 40)))])))
      = [LLAMA4_SCOUT]
   \<and> SEARCH_MODELS = [COMPOUND, COMPOUND_MINI]
   \<and> fst (shouldSkipModel
            (clock (busyWorld COMPOUND [(500, Response 200 noHeaders (Some (js ''NONE'', 40)))]))
            COMPOUND
            (tracker (busyWorld COMPOUND [(500, Response 200 noHeaders (Some (js ''NONE'', 40)))])))
   \<and> attempted (busyWorld COMPOUND [(500, Response 200 noHeaders (Some (js ''NONE'', 40)))])
        (snd (fetchSearchContext
           (busyWorld COMPOUND [(500, Response 200 noHeaders (Some (js ''NONE'', 40)))])))
      = [COMPOUND]"
proof (intro conjI)
  show "DATA_MODELS = [LLAMA4_SCOUT, LLAMA31_8B]"
    by (simp add: DATA_MODELS_def DATA_PROCESSING_MODEL_def EMERGENCY_MODEL_def)
  show "SEARCH_MODELS = [COMPOUND, COMPOUND_MINI]"
    by (simp add: SEARCH_MODELS_def)
  show "fst (shouldSkipModel
            (clock (busyWorld LLAMA4_SCOUT [(500, Response 200 noHeaders (Some (js ''CONDITION: okay'', 40)))]))
            LLAMA4_SCOUT
            (tracker (busyWorld LLAMA4_SCOUT [(500, Response 200 noHeaders (Some (js ''CONDITION: okay'', 40)))])))"
    by (simp add: busyWorld_def busy_skip)
  show "fst (shouldSkipModel
            (clock (busyWorld COMPOUND [(500, Response 200 noHeaders (Some (js ''NONE'', 40)))]))
            COMPOUND
            (tracker (busyWorld COMPOUND [(500, Response 200 noHeaders (Some (js ''NONE'', 40)))])))"
    by (simp add: busyWorld_def busy_skip)
qed (simp_all add: busy_extract_run busy_search_run)

text \<open>
  Claim C2, amended. In the persona query, an iteration for a model that is not the last
  of the chain and for which \<open>shouldSkipModel\<close> holds makes no call: the loop goes on
  with the rest of the chain in the same world, up to the pruning that \<open>shouldSkipModel\<close>
  does in the tracker, and if the model does not occur again in the chain no call of the
  query goes to it. The last model of the chain is called whatever its load. Condition
  extraction and search-context fetching have no skip: each model their loop reaches is
  called, whatever its load.
\<close>

theorem C2_skip_policy:
  "(rest \<noteq> [] \<and> fst (shouldSkipModel (clock w) m (tracker w)) \<longrightarrow>
      queryPersonaLoop b cfg lang start (m # rest) w =
        queryPersonaLoop b cfg lang start rest
          (w\<lparr>tracker := snd (shouldSkipModel (clock w) m (tracker w))\<rparr>)
      \<and> (m \<notin> set rest \<longrightarrow>
           m \<notin> set (attempted w (snd (queryPersonaLoop b cfg lang start (m # rest) w)))))
   \<and> (\<exists>ms. attempted w (snd (queryPersonaLoop b cfg lang start [m] w)) = m # ms)
   \<and> (\<exists>ms. attempted w (snd (extractConditionLoop lang0 (m # rest) w)) = m # ms)
   \<and> (\<exists>ms. attempted w (snd (fetchSearchContextLoop (m # rest) w)) = m # ms)"
proof (intro conjI impI)
  assume sk: "rest \<noteq> [] \<and> fst (shouldSkipModel (clock w) m (tracker w))"
  let ?wp = "w\<lparr>tracker := snd (shouldSkipModel (clock w) m (tracker w))\<rparr>"
  show eq: "queryPersonaLoop b cfg lang start (m # rest) w =
        queryPersonaLoop b cfg lang start rest ?wp"
    by (rule queryPersonaLoop_skip [OF sk])
  assume "m \<notin> set rest"
  moreover have "set (attempted ?wp (snd (queryPersonaLoop b cfg lang start rest ?wp))) \<subseteq> set rest"
    using queryPersonaLoop_attempted [of rest ?wp b cfg lang start] sk by simp
  moreover have "attempted ?wp = attempted w"
    by (simp add: attempted_def newCalls_def fun_eq_iff)
  ultimately show "m \<notin> set (attempted w (snd (queryPersonaLoop b cfg lang start (m # rest) w)))"
    unfolding eq by auto
next
  from queryPersonaLoop_attempted [of "[m]" w b cfg lang start]
  show "\<exists>ms. attempted w (snd (queryPersonaLoop b cfg lang start [m] w)) = m # ms"
    by (cases "attempted w (snd (queryPersonaLoop b cfg lang start [m] w))")
      (auto simp del: queryPersonaLoop.simps)
next
  show "\<exists>ms. attempted w (snd (extractConditionLoop lang0 (m # rest) w)) = m # ms"
    by (rule extractConditionLoop_first)
next
  show "\<exists>ms. attempted w (snd (fetchSearchContextLoop (m # rest) w)) = m # ms"
    by (rule fetchSearchContextLoop_first)
qed

text \<open>The amended claim C2 at a world where the primary model of MELCHIOR is to be
  skipped and the network is down: the query makes no call to the primary model, and
  calls the fallback model and then the emergency model.\<close>

theorem C2_skip_policy_witness:
  "fst (shouldSkipModel (clock (busyWorld QWEN3_32B [])) QWEN3_32B (tracker (busyWorld QWEN3_32B [])))
   \<and> QWEN3_32B \<notin> set (attempted (busyWorld QWEN3_32B [])
        (snd (queryPersonaLoop noBundles (getPersonaConfigs En MELCHIOR_1) En 0
           [QWEN3_32B, LLAMA4_MAVERICK, LLAMA31_8B] (busyWorld QWEN3_32B []))))
   \<and> attempted (busyWorld QWEN3_32B [])
        (snd (queryPersona noBundles (getPersonaConfigs En MELCHIOR_1) En (busyWorld QWEN3_32B [])))
      = [LLAMA4_MAVERICK, LLAMA31_8B]"
proof -
  have sk: "fst (shouldSkipModel (clock (busyWorld QWEN3_32B [])) QWEN3_32B (tracker (busyWorld QWEN3_32B [])))"
    by (simp add: busyWorld_def busy_skip)
  have d: "QWEN3_32B \<notin> set [LLAMA4_MAVERICK, LLAMA31_8B]"
    by (simp add: model_ids)
  have ne: "[LLAMA4_MAVERICK, LLAMA31_8B] \<noteq> []" by simp
  from C2_skip_policy [of "[LLAMA4_MAVERICK, LLAMA31_8B]" "busyWorld QWEN3_32B []" QWEN3_32B
      noBundles "getPersonaConfigs En MELCHIOR_1" En 0, THEN conjunct1] ne sk d
  have "QWEN3_32B \<notin> set (attempted (busyWorld QWEN3_32B [])
        (snd (queryPersonaLoop noBundles (getPersonaConfigs En MELCHIOR_1) En 0
           [QWEN3_32B, LLAMA4_MAVERICK, LLAMA31_8B] (busyWorld QWEN3_32B []))))"
    by blast
  with sk busy_run show ?thesis by blast
qed

section \<open>The error field of a persona response\<close>




section \<open>The length of an extracted condition\<close>



section \<open>The language of a deliberation\<close>

text \<open>
  Claim C10. When the requested language is not \<^verbatim>\<open>auto\<close>, the language of the
  deliberation returned by \<open>deliberate\<close> is the requested one, for every question, every
  world and so every output of the models; and condition extraction reports no detected
  language. The local detector and the \<^verbatim>\<open>LANG\<close> line are consulted in the branch for
  \<^verbatim>\<open>auto\<close> only.
\<close>

theorem C10_fixed_language:
  "language (fst (deliberate b q (Fixed l) img uctx fctx w)) = l
   \<and> detectedLang (fst (extractCondition (Fixed l) w)) = None"
  by (simp add: deliberate_def split_def Let_def extractCondition_def detectedLang_Fixed)

end
